theory Spec2Isabelle
  imports Main "HOL-Library.Word"
begin

section \<open>Data model of internal/chain/engine.go\<close>

text \<open>
  The engine works on values of other packages (block, shard, state, slash, quorum, bls).
  Their structs are records here; their functions and methods, whose code is outside
  engine.go, are fields of the package records further down and stay arbitrary in every
  theorem. Go's \<open>*big.Int\<close> is \<open>int\<close>, \<open>uint32\<close> and \<open>uint64\<close> are words,
  a byte slice is a list of 8-bit words, and a nil-able pointer is an \<open>option\<close>.
\<close>

type_synonym byte = "8 word"
type_synonym bytes = "byte list"
type_synonym hash = bytes
type_synonym address = nat

text \<open>The errors engine.go creates itself, in source order, and those it passes on.\<close>

datatype error =
    ErrUnknownAncestor
  | ErrShardIDNotMatch "32 word" "32 word"
  | ErrShardStateEncoding error
  | ErrShardStateNotMatch
  | ErrNilBlockHeader
  | ErrNoParentHeader
  | ErrVerifyParentSignature hash error
  | ErrSlashesInWrongChain
  | ErrReadAllValidators
  | ErrGetValidatorFromState
  | ErrReadShardStateFinalize
  | ErrSlashReadShardState
  | ErrSlashFindCommittee
  | ErrSlashVotingPower error
  | ErrSlashApply
  | ErrDeserializeSigBitmap error
  | ErrNotEnoughSignature
  | ErrVerifyAggregatedSig
  | ErrComputeShardState int error
  | ErrReadShardState int error
  | ErrCollaborator nat

text \<open>\<open>x.Uint64()\<close> of a \<open>*big.Int\<close>: the low 64 bits of the absolute value.\<close>

definition Uint64 :: "int \<Rightarrow> 64 word" where
  "Uint64 x = word_of_int (abs x)"

record header =
  hdr_ParentHash :: hash
  hdr_Number :: int
  hdr_Epoch :: int
  hdr_ShardID :: "32 word"
  hdr_ViewID :: int
  hdr_Root :: hash
  hdr_ShardState :: bytes
  hdr_LastCommitSignature :: bytes
  hdr_LastCommitBitmap :: bytes

record slot =
  EcdsaAddress :: address
  BLSPublicKey :: bytes
  EffectiveStake :: "int option"

record committee =
  com_ShardID :: "32 word"
  com_Slots :: "slot list"

record shard_state =
  ss_Epoch :: "int option"
  ss_Shards :: "committee list"

text \<open>\<open>chain.Config()\<close>: the fork predicates on epochs.\<close>

record chain_config =
  IsStaking :: "int \<Rightarrow> bool"
  IsPreStaking :: "int \<Rightarrow> bool"
  IsS3 :: "int \<Rightarrow> bool"
  IsQuickUnlock :: "int \<Rightarrow> bool"
  IsNoEarlyUnlock :: "int \<Rightarrow> bool"
  IsRedelegation :: "int \<Rightarrow> bool"

text \<open>
  \<open>engine.ChainReader\<close>. \<open>CurrentBlockEpoch\<close> is \<open>chain.CurrentBlock().Epoch()\<close>;
  \<open>SuperCommitteeForNextEpoch\<close>, which takes a second chain, is a field of
  \<open>shard_pkg\<close>.
\<close>

record chain =
  GetHeader :: "hash \<Rightarrow> 64 word \<Rightarrow> header option"
  CurrentHeader :: header
  CurrentBlockEpoch :: int
  Config :: chain_config
  chain_ShardID :: "32 word"
  ReadShardState :: "int \<Rightarrow> error + shard_state"
  ReadValidatorList :: "error + address list"

text \<open>Methods of \<open>block.Header\<close> that compute: the hash and the decoded shard state.\<close>

record header_methods =
  Hash :: "header \<Rightarrow> hash"
  IsLastBlockInEpoch :: "header \<Rightarrow> bool"
  GetShardState :: "header \<Rightarrow> error + shard_state"

text \<open>
  Packages shard and shard/committee, and the chain's \<open>SuperCommitteeForNextEpoch\<close>
  (receiver first). \<open>StakedValidatorsAddrs ss\<close> is \<open>ss.StakedValidators().Addrs\<close>.
\<close>

record shard_pkg =
  FindCommitteeByID :: "shard_state \<Rightarrow> 32 word \<Rightarrow> error + committee"
  StakedValidatorsAddrs :: "shard_state \<Rightarrow> address list"
  EncodeWrapper :: "shard_state \<Rightarrow> bool \<Rightarrow> error + bytes"
  Compute :: "int \<Rightarrow> chain \<Rightarrow> error + shard_state"
  SuperCommitteeForNextEpoch :: "chain \<Rightarrow> chain \<Rightarrow> header \<Rightarrow> bool \<Rightarrow> error + shard_state"

text \<open>
  The world state (\<open>state.DB\<close>) as far as the engine reads and writes it: the validator
  wrappers, which \<open>state.ValidatorWrapper\<close> hands out by pointer, and the balances.
\<close>

record delegation =
  DelegatorAddress :: address
  Amount :: int
  Undelegations :: "(int \<times> int) list"

record validator_wrapper =
  LastEpochInCommittee :: "int option"
  Status :: nat
  Delegations :: "delegation list"

record state =
  validators :: "address \<rightharpoonup> validator_wrapper"
  balances :: "address \<Rightarrow> int"

definition ValidatorWrapper :: "state \<Rightarrow> address \<Rightarrow> error + validator_wrapper" where
  "ValidatorWrapper st addr =
     (case validators st addr of
        None \<Rightarrow> Inl (ErrCollaborator addr)
      | Some wrapper \<Rightarrow> Inr wrapper)"

definition AddBalance :: "state \<Rightarrow> address \<Rightarrow> int \<Rightarrow> state" where
  "AddBalance st addr amount = st\<lparr>balances := (balances st)(addr := balances st addr + amount)\<rparr>"

text \<open>
  Packages staking/types, staking/availability, the reward accumulation of this package
  (reward.go) and \<open>state.IntermediateRoot\<close>. \<open>RemoveUnlockedUndelegations\<close> returns the
  total withdrawn and the delegation as it leaves it; the reward report is a number.
\<close>

record staking_pkg =
  LockPeriodInEpoch :: int
  LockPeriodInEpochV2 :: int
  RemoveUnlockedUndelegations ::
    "delegation \<Rightarrow> int \<Rightarrow> int option \<Rightarrow> int \<Rightarrow> bool \<Rightarrow> int \<times> delegation"
  ComputeAndMutateEPOSStatus :: "chain \<Rightarrow> state \<Rightarrow> address \<Rightarrow> error + state"
  AccumulateRewardsAndCountSigs ::
    "chain \<Rightarrow> state \<Rightarrow> header \<Rightarrow> chain option \<Rightarrow> bool \<Rightarrow> error + (nat \<times> state)"
  IntermediateRoot :: "state \<Rightarrow> bool \<Rightarrow> hash"

text \<open>A double-sign record: the evidence's moment and position, and the offender.\<close>

record moment =
  Epoch :: int
  ShardID :: "32 word"

record evidence =
  Moment :: moment
  Height :: "64 word"
  ViewID :: "64 word"

record slash_record =
  Evidence :: evidence
  Offender :: address

text \<open>
  Package staking/slash and \<open>lookupVotingPower\<close> of this package. \<open>applySlashes\<close> only
  hands the state on to \<open>slash.Apply\<close>, so the package is stated for any state type.
\<close>

record 's slash_pkg =
  lookupVotingPower :: "int \<Rightarrow> committee \<Rightarrow> error + nat"
  Rate :: "nat \<Rightarrow> slash_record list \<Rightarrow> nat"
  Apply :: "chain \<Rightarrow> 's \<Rightarrow> slash_record list \<Rightarrow> nat \<Rightarrow> error + (nat \<times> 's)"

text \<open>
  Packages consensus/quorum, consensus/signature and crypto/bls. A public key, an
  aggregate signature, a mask and a quorum verifier are opaque numbers.
\<close>

record sig_pkg =
  BLSPublicKeys :: "committee \<Rightarrow> error + nat list"
  NewVerifier :: "committee \<Rightarrow> int \<Rightarrow> bool \<Rightarrow> error + nat"
  IsQuorumAchievedByMask :: "nat \<Rightarrow> nat \<Rightarrow> bool"
  DecodeSigBitmap :: "bytes \<Rightarrow> bytes \<Rightarrow> nat list \<Rightarrow> error + (nat \<times> nat)"
  AggregatePublic :: "nat \<Rightarrow> nat"
  ConstructCommitPayload :: "chain \<Rightarrow> int \<Rightarrow> hash \<Rightarrow> 64 word \<Rightarrow> 64 word \<Rightarrow> bytes"
  VerifyHash :: "nat \<Rightarrow> nat \<Rightarrow> bytes \<Rightarrow> bool"

text \<open>
  The engine and its two caches. \<open>lru.Cache\<close> (hashicorp/golang-lru) is a list of
  entries, most recently used first: \<open>Get\<close> moves a hit to the front, \<open>Add\<close> puts the
  entry at the front and drops the oldest one when the size is exceeded.
\<close>

type_synonym ('k, 'v) lru = "('k \<times> 'v) list"

definition lruGet :: "('k, 'v) lru \<Rightarrow> 'k \<Rightarrow> 'v option \<times> ('k, 'v) lru" where
  "lruGet c k =
     (case map_of c k of
        None \<Rightarrow> (None, c)
      | Some v \<Rightarrow> (Some v, (k, v) # filter (\<lambda>e. fst e \<noteq> k) c))"

definition lruAdd :: "nat \<Rightarrow> ('k, 'v) lru \<Rightarrow> 'k \<Rightarrow> 'v \<Rightarrow> ('k, 'v) lru" where
  "lruAdd cap c k v =
     (case map_of c k of
        Some old \<Rightarrow> (k, v) # filter (\<lambda>e. fst e \<noteq> k) c
      | None \<Rightarrow>
          let c' = (k, v) # c
          in if length c' > cap then butlast c' else c')"

definition verifiedSigCacheSize :: nat where
  "verifiedSigCacheSize = 20"

definition epochCtxCacheSize :: nat where
  "epochCtxCacheSize = 20"

definition bitmapKeyBytes :: nat where
  "bitmapKeyBytes = 64"

record verifiedSigKey =
  blockHash :: hash
  signature :: bytes
  bitmap :: bytes

record epochCtxKey =
  eck_shardID :: "32 word"
  eck_epoch :: "64 word"

record epochCtx =
  qrVerifier :: nat
  pubKeys :: "nat list"

record engineImpl =
  beacon :: "chain option"
  epochCtxCache :: "(epochCtxKey, epochCtx option) lru"
  verifiedSigCache :: "(verifiedSigKey, unit) lru"

definition NewEngine :: engineImpl where
  "NewEngine = \<lparr>beacon = None, epochCtxCache = [], verifiedSigCache = []\<rparr>"

section \<open>Operations\<close>

subsection \<open>Shard state lookup\<close>

definition needRecalculateStateShard :: "chain \<Rightarrow> int \<Rightarrow> 32 word \<Rightarrow> bool" where
  "needRecalculateStateShard chain epoch targetShardID =
     (if IsStaking (Config chain) epoch then False
      else targetShardID \<noteq> chain_ShardID chain)"

definition readShardState ::
  "shard_pkg \<Rightarrow> chain \<Rightarrow> int \<Rightarrow> 32 word \<Rightarrow> error + shard_state" where
  "readShardState shp chain epoch targetShardID =
     (if needRecalculateStateShard chain epoch targetShardID then
        (case Compute shp epoch chain of
           Inl err \<Rightarrow> Inl (ErrComputeShardState epoch err)
         | Inr shardState \<Rightarrow> Inr shardState)
      else
        (case ReadShardState chain epoch of
           Inl err \<Rightarrow> Inl (ErrReadShardState epoch err)
         | Inr shardState \<Rightarrow> Inr shardState))"

subsection \<open>VerifyShardState\<close>

definition VerifyShardState ::
  "shard_pkg \<Rightarrow> chain \<Rightarrow> chain \<Rightarrow> header \<Rightarrow> error option" where
  "VerifyShardState shp bc beaconChain header =
     (if chain_ShardID bc \<noteq> hdr_ShardID header then
        Some (ErrShardIDNotMatch (chain_ShardID bc) (hdr_ShardID header))
      else
        let headerShardStateBytes = hdr_ShardState header in
        if length headerShardStateBytes = 0 then None
        else
          (case SuperCommitteeForNextEpoch shp bc beaconChain header True of
             Inl err \<Rightarrow> Some err
           | Inr shardState \<Rightarrow>
               let isStaking =
                     (case ss_Epoch shardState of
                        None \<Rightarrow> False
                      | Some ep \<Rightarrow> if IsStaking (Config bc) ep then True else False)
               in (case EncodeWrapper shp shardState isStaking of
                     Inl err \<Rightarrow> Some (ErrShardStateEncoding err)
                   | Inr shardStateBytes \<Rightarrow>
                       if shardStateBytes \<noteq> headerShardStateBytes
                       then Some ErrShardStateNotMatch
                       else None)))"

subsection \<open>Lock period and payout of undelegations\<close>

definition GetLockPeriodInEpoch :: "staking_pkg \<Rightarrow> chain \<Rightarrow> int \<Rightarrow> int" where
  "GetLockPeriodInEpoch stk chain epoch =
     (let lockPeriod = LockPeriodInEpoch stk
      in if IsRedelegation (Config chain) epoch then LockPeriodInEpoch stk
         else if IsQuickUnlock (Config chain) epoch then LockPeriodInEpochV2 stk
         else lockPeriod)"

text \<open>
  The inner loop of \<open>payoutUndelegations\<close> over \<open>wrapper.Delegations\<close>: each delegation
  is replaced by what \<open>RemoveUnlockedUndelegations\<close> leaves, and a non-zero total is
  credited to the delegator.
\<close>

fun payoutDelegations ::
  "staking_pkg \<Rightarrow> int \<Rightarrow> int option \<Rightarrow> int \<Rightarrow> bool \<Rightarrow> delegation list \<Rightarrow> state
     \<Rightarrow> delegation list \<times> state" where
  "payoutDelegations stk epoch lastEpoch lockPeriod noEarlyUnlock [] st = ([], st)"
| "payoutDelegations stk epoch lastEpoch lockPeriod noEarlyUnlock (d # ds) st =
     (let (totalWithdraw, d') =
            RemoveUnlockedUndelegations stk d epoch lastEpoch lockPeriod noEarlyUnlock;
          st' = (if totalWithdraw \<noteq> 0 then AddBalance st (DelegatorAddress d') totalWithdraw
                 else st);
          (ds', st'') = payoutDelegations stk epoch lastEpoch lockPeriod noEarlyUnlock ds st'
      in (d' # ds', st''))"

text \<open>The outer loop over the validator list; the wrapper is written back in place.\<close>

fun payoutValidators ::
  "staking_pkg \<Rightarrow> int \<Rightarrow> int \<Rightarrow> bool \<Rightarrow> address list \<Rightarrow> state \<Rightarrow> error + state" where
  "payoutValidators stk epoch lockPeriod noEarlyUnlock [] st = Inr st"
| "payoutValidators stk epoch lockPeriod noEarlyUnlock (validator # rest) st =
     (case ValidatorWrapper st validator of
        Inl err \<Rightarrow> Inl ErrGetValidatorFromState
      | Inr wrapper \<Rightarrow>
          let (ds', st') =
                payoutDelegations stk epoch (LastEpochInCommittee wrapper) lockPeriod
                  noEarlyUnlock (Delegations wrapper) st;
              st'' = st'\<lparr>validators :=
                       (validators st')(validator \<mapsto> wrapper\<lparr>Delegations := ds'\<rparr>)\<rparr>
          in payoutValidators stk epoch lockPeriod noEarlyUnlock rest st'')"

definition payoutUndelegations ::
  "staking_pkg \<Rightarrow> chain \<Rightarrow> header \<Rightarrow> state \<Rightarrow> error + state" where
  "payoutUndelegations stk chain header st =
     (case ReadValidatorList chain of
        Inl err \<Rightarrow> Inl ErrReadAllValidators
      | Inr validatorList \<Rightarrow>
          let lockPeriod = GetLockPeriodInEpoch stk chain (hdr_Epoch header);
              noEarlyUnlock = IsNoEarlyUnlock (Config chain) (hdr_Epoch header)
          in payoutValidators stk (hdr_Epoch header) lockPeriod noEarlyUnlock validatorList st)"

subsection \<open>Committee selection block\<close>

definition BeaconChainShardID :: "32 word" where
  "BeaconChainShardID = 0"

definition IsCommitteeSelectionBlock :: "header_methods \<Rightarrow> chain \<Rightarrow> header \<Rightarrow> bool" where
  "IsCommitteeSelectionBlock hm chain header =
     (let isBeaconChain = (hdr_ShardID header = BeaconChainShardID);
          inPreStakingEra = IsPreStaking (Config chain) (hdr_Epoch header)
      in isBeaconChain \<and> IsLastBlockInEpoch hm header \<and> inPreStakingEra)"

fun setLastEpochLoop :: "int option \<Rightarrow> address list \<Rightarrow> state \<Rightarrow> error + state" where
  "setLastEpochLoop newEpoch [] st = Inr st"
| "setLastEpochLoop newEpoch (addr # rest) st =
     (case ValidatorWrapper st addr of
        Inl err \<Rightarrow> Inl ErrGetValidatorFromState
      | Inr wrapper \<Rightarrow>
          setLastEpochLoop newEpoch rest
            (st\<lparr>validators :=
                 (validators st)(addr \<mapsto> wrapper\<lparr>LastEpochInCommittee := newEpoch\<rparr>)\<rparr>))"

definition setLastEpochInCommittee ::
  "header_methods \<Rightarrow> shard_pkg \<Rightarrow> header \<Rightarrow> state \<Rightarrow> error + state" where
  "setLastEpochInCommittee hm shp header st =
     (case GetShardState hm header of
        Inl err \<Rightarrow> Inl ErrReadShardStateFinalize
      | Inr newShardState \<Rightarrow>
          setLastEpochLoop (ss_Epoch newShardState) (StakedValidatorsAddrs shp newShardState) st)"

subsection \<open>applySlashes\<close>

record keyStruct =
  height :: "64 word"
  viewID :: "64 word"
  shardID :: "32 word"
  epoch :: "64 word"

definition thisKey :: "slash_record \<Rightarrow> keyStruct" where
  "thisKey r =
     \<lparr>height = Height (Evidence r),
      viewID = ViewID (Evidence r),
      shardID = ShardID (Moment (Evidence r)),
      epoch = Uint64 (Epoch (Moment (Evidence r)))\<rparr>"

text \<open>
  \<open>groupedRecords\<close>, a Go map, as an association list in the order the keys were first
  inserted; a missing key reads as the nil slice.
\<close>

fun appendRecord ::
  "keyStruct \<Rightarrow> slash_record \<Rightarrow> (keyStruct \<times> slash_record list) list
     \<Rightarrow> (keyStruct \<times> slash_record list) list" where
  "appendRecord k r [] = [(k, [r])]"
| "appendRecord k r ((k', rs) # m) =
     (if k' = k then (k', rs @ [r]) # m else (k', rs) # appendRecord k r m)"

definition groupRecords :: "slash_record list \<Rightarrow> (keyStruct \<times> slash_record list) list" where
  "groupRecords doubleSigners = fold (\<lambda>r m. appendRecord (thisKey r) r m) doubleSigners []"

definition lookupGroup ::
  "(keyStruct \<times> slash_record list) list \<Rightarrow> keyStruct \<Rightarrow> slash_record list" where
  "lookupGroup groupedRecords key =
     (case map_of groupedRecords key of None \<Rightarrow> [] | Some records \<Rightarrow> records)"

text \<open>
  \<open>for key := range groupedRecords\<close> yields every key once, in an order Go leaves
  unspecified (the runtime randomises it). The order is a parameter of \<open>applySlashes\<close>;
  \<open>isRangeOrder\<close> says which lists it can be.
\<close>

definition isRangeOrder ::
  "(keyStruct \<times> slash_record list) list \<Rightarrow> keyStruct list \<Rightarrow> bool" where
  "isRangeOrder groupedRecords keys =
     (distinct keys \<and> set keys = set (map fst groupedRecords))"

text \<open>The comparator handed to \<open>sort.SliceStable\<close>, with \<open>a = sortedKeys[i]\<close>, \<open>b = sortedKeys[j]\<close>.\<close>

definition keyLess :: "keyStruct \<Rightarrow> keyStruct \<Rightarrow> bool" where
  "keyLess a b =
     (if shardID a < shardID b then True
      else if height a < height b then True
      else if viewID a < viewID b then True
      else False)"

text \<open>
  Go's \<open>sort.SliceStable\<close> on a slice of at most 20 elements is one pass of its insertion
  sort: for \<open>i\<close> from 1 up, element \<open>i\<close> is swapped towards the front while it is less
  than its left neighbour. \<open>insertLeft\<close> works on the reversed sorted prefix. Longer
  slices, which Go sorts in blocks of 20 and then merges, are outside this model: every
  theorem below that relies on the sort uses at most 20 keys.
\<close>

fun insertLeft :: "('a \<Rightarrow> 'a \<Rightarrow> bool) \<Rightarrow> 'a \<Rightarrow> 'a list \<Rightarrow> 'a list" where
  "insertLeft lessFn x [] = [x]"
| "insertLeft lessFn x (y # ys) =
     (if lessFn x y then y # insertLeft lessFn x ys else x # y # ys)"

definition insertionSort :: "('a \<Rightarrow> 'a \<Rightarrow> bool) \<Rightarrow> 'a list \<Rightarrow> 'a list" where
  "insertionSort lessFn xs = rev (fold (insertLeft lessFn) xs [])"

definition SliceStable :: "('a \<Rightarrow> 'a \<Rightarrow> bool) \<Rightarrow> 'a list \<Rightarrow> 'a list" where
  "SliceStable lessFn xs = insertionSort lessFn xs"

text \<open>The loop over the sorted keys. \<open>int64(key.epoch)\<close> reads the word as signed.\<close>

fun slashGroups ::
  "'s slash_pkg \<Rightarrow> shard_pkg \<Rightarrow> chain \<Rightarrow> (keyStruct \<times> slash_record list) list
     \<Rightarrow> keyStruct list \<Rightarrow> 's \<Rightarrow> error + 's" where
  "slashGroups slp shp chain groupedRecords [] st = Inr st"
| "slashGroups slp shp chain groupedRecords (key # rest) st =
     (let records = lookupGroup groupedRecords key
      in case ReadShardState chain (sint (epoch key)) of
           Inl err \<Rightarrow> Inl ErrSlashReadShardState
         | Inr superCommittee \<Rightarrow>
             (case FindCommitteeByID shp superCommittee (shardID key) of
                Inl err \<Rightarrow> Inl ErrSlashFindCommittee
              | Inr subComm \<Rightarrow>
                  (case lookupVotingPower slp (sint (epoch key)) subComm of
                     Inl err \<Rightarrow> Inl (ErrSlashVotingPower err)
                   | Inr votingPower \<Rightarrow>
                       let rate = Rate slp votingPower records
                       in (case Apply slp chain st records rate of
                             Inl err \<Rightarrow> Inl ErrSlashApply
                           | Inr (slashApplied, st') \<Rightarrow>
                               slashGroups slp shp chain groupedRecords rest st'))))"

definition applySlashes ::
  "'s slash_pkg \<Rightarrow> shard_pkg \<Rightarrow> keyStruct list \<Rightarrow> chain \<Rightarrow> header \<Rightarrow> 's
     \<Rightarrow> slash_record list \<Rightarrow> error + 's" where
  "applySlashes slp shp rangeKeys chain header st doubleSigners =
     (let groupedRecords = groupRecords doubleSigners;
          sortedKeys = SliceStable keyLess rangeKeys
      in slashGroups slp shp chain groupedRecords sortedKeys st)"

subsection \<open>Header signature verification and its memo\<close>

definition newVerifiedSigKey :: "hash \<Rightarrow> bytes \<Rightarrow> bytes \<Rightarrow> verifiedSigKey" where
  "newVerifiedSigKey bh sig bm =
     (let keyBM = take bitmapKeyBytes bm @ replicate (bitmapKeyBytes - length bm) 0
      in \<lparr>blockHash = bh, signature = sig, bitmap = keyBM\<rparr>)"

definition newEpochCtxKeyFromHeader :: "header \<Rightarrow> epochCtxKey" where
  "newEpochCtxKeyFromHeader header =
     \<lparr>eck_shardID = hdr_ShardID header, eck_epoch = Uint64 (hdr_Epoch header)\<rparr>"

definition getCachedEpochCtx :: "engineImpl \<Rightarrow> header \<Rightarrow> epochCtx option \<times> engineImpl" where
  "getCachedEpochCtx e header =
     (let ecKey = newEpochCtxKeyFromHeader header;
          (found, cache') = lruGet (epochCtxCache e) ecKey;
          e' = e\<lparr>epochCtxCache := cache'\<rparr>
      in case found of
           None \<Rightarrow> (None, e')
         | Some None \<Rightarrow> (None, e')
         | Some (Some ec) \<Rightarrow> (Some ec, e'))"

definition readEpochCtxFromChain ::
  "shard_pkg \<Rightarrow> sig_pkg \<Rightarrow> chain \<Rightarrow> int \<Rightarrow> 32 word \<Rightarrow> error + epochCtx" where
  "readEpochCtxFromChain shp sgp chain ep targetShardID =
     (case readShardState shp chain ep targetShardID of
        Inl err \<Rightarrow> Inl err
      | Inr ss \<Rightarrow>
          (case FindCommitteeByID shp ss targetShardID of
             Inl err \<Rightarrow> Inl err
           | Inr shardComm \<Rightarrow>
               (case BLSPublicKeys sgp shardComm of
                  Inl err \<Rightarrow> Inl err
                | Inr pks \<Rightarrow>
                    let isStaking = IsStaking (Config chain) ep
                    in (case NewVerifier sgp shardComm ep isStaking of
                          Inl err \<Rightarrow> Inl err
                        | Inr qr \<Rightarrow> Inr \<lparr>qrVerifier = qr, pubKeys = pks\<rparr>))))"

definition verifyHeaderSignature ::
  "header_methods \<Rightarrow> shard_pkg \<Rightarrow> sig_pkg \<Rightarrow> engineImpl \<Rightarrow> chain \<Rightarrow> header \<Rightarrow> bytes \<Rightarrow> bytes
     \<Rightarrow> error option \<times> engineImpl" where
  "verifyHeaderSignature hm shp sgp e chain header commitSig commitBitmap =
     (let (cached, e') = getCachedEpochCtx e header
      in case (case cached of
                 Some ec \<Rightarrow> Inr ec
               | None \<Rightarrow>
                   readEpochCtxFromChain shp sgp chain (hdr_Epoch header) (hdr_ShardID header)) of
           Inl err \<Rightarrow> (Some err, e')
         | Inr ec \<Rightarrow>
             (case DecodeSigBitmap sgp commitSig commitBitmap (pubKeys ec) of
                Inl err \<Rightarrow> (Some (ErrDeserializeSigBitmap err), e')
              | Inr (aggSig, msk) \<Rightarrow>
                  if \<not> IsQuorumAchievedByMask sgp (qrVerifier ec) msk
                  then (Some ErrNotEnoughSignature, e')
                  else
                    let commitPayload =
                          ConstructCommitPayload sgp chain (hdr_Epoch header) (Hash hm header)
                            (Uint64 (hdr_Number header)) (Uint64 (hdr_ViewID header))
                    in if \<not> VerifyHash sgp aggSig (AggregatePublic sgp msk) commitPayload
                       then (Some ErrVerifyAggregatedSig, e')
                       else (None, e')))"

definition verifyHeaderSignatureCached ::
  "header_methods \<Rightarrow> shard_pkg \<Rightarrow> sig_pkg \<Rightarrow> engineImpl \<Rightarrow> chain \<Rightarrow> header \<Rightarrow> bytes \<Rightarrow> bytes
     \<Rightarrow> error option \<times> engineImpl" where
  "verifyHeaderSignatureCached hm shp sgp e chain header commitSig commitBitmap =
     (let key = newVerifiedSigKey (Hash hm header) commitSig commitBitmap;
          (found, cache') = lruGet (verifiedSigCache e) key;
          e1 = e\<lparr>verifiedSigCache := cache'\<rparr>
      in case found of
           Some ok \<Rightarrow> (None, e1)
         | None \<Rightarrow>
             (case verifyHeaderSignature hm shp sgp e1 chain header commitSig commitBitmap of
                (Some err, e2) \<Rightarrow> (Some err, e2)
              | (None, e2) \<Rightarrow>
                  (None,
                   e2\<lparr>verifiedSigCache :=
                        lruAdd verifiedSigCacheSize (verifiedSigCache e2) key ()\<rparr>)))"

definition VerifyHeaderSignature ::
  "header_methods \<Rightarrow> shard_pkg \<Rightarrow> sig_pkg \<Rightarrow> engineImpl \<Rightarrow> chain \<Rightarrow> header \<Rightarrow> bytes \<Rightarrow> bytes
     \<Rightarrow> error option \<times> engineImpl" where
  "VerifyHeaderSignature hm shp sgp e chain header commitSig commitBitmap =
     (if Uint64 (hdr_Number (CurrentHeader chain)) \<le> 1 then (None, e)
      else verifyHeaderSignatureCached hm shp sgp e chain header commitSig commitBitmap)"

text \<open>\<open>VerifySeal\<close> checks its header for nil, so the header is an option here.\<close>

definition VerifySeal ::
  "header_methods \<Rightarrow> shard_pkg \<Rightarrow> sig_pkg \<Rightarrow> engineImpl \<Rightarrow> chain \<Rightarrow> header option
     \<Rightarrow> error option \<times> engineImpl" where
  "VerifySeal hm shp sgp e chain headerPtr =
     (if Uint64 (hdr_Number (CurrentHeader chain)) \<le> 1 then (None, e)
      else
        (case headerPtr of
           None \<Rightarrow> (Some ErrNilBlockHeader, e)
         | Some header \<Rightarrow>
             let parentHash = hdr_ParentHash header
             in (case GetHeader chain parentHash (Uint64 (hdr_Number header) - 1) of
                   None \<Rightarrow> (Some ErrNoParentHeader, e)
                 | Some parentHeader \<Rightarrow>
                     let sig = hdr_LastCommitSignature header;
                         bm = hdr_LastCommitBitmap header
                     in (case verifyHeaderSignatureCached hm shp sgp e chain parentHeader sig bm of
                           (Some err, e') \<Rightarrow> (Some (ErrVerifyParentSignature parentHash err), e')
                         | (None, e') \<Rightarrow> (None, e')))))"

definition VerifyHeader ::
  "header_methods \<Rightarrow> shard_pkg \<Rightarrow> sig_pkg \<Rightarrow> engineImpl \<Rightarrow> chain \<Rightarrow> header \<Rightarrow> bool
     \<Rightarrow> error option \<times> engineImpl" where
  "VerifyHeader hm shp sgp e chain header seal =
     (case GetHeader chain (hdr_ParentHash header) (Uint64 (hdr_Number header) - 1) of
        None \<Rightarrow> (Some ErrUnknownAncestor, e)
      | Some parentHeader \<Rightarrow>
          if seal then VerifySeal hm shp sgp e chain (Some header) else (None, e))"

subsection \<open>Finalize\<close>

record block =
  blk_header :: header
  blk_txs :: "nat list"
  blk_receipts :: "nat list"
  blk_outcxs :: "nat list"
  blk_incxs :: "nat list"
  blk_stks :: "nat list"

definition NewBlock ::
  "header \<Rightarrow> nat list \<Rightarrow> nat list \<Rightarrow> nat list \<Rightarrow> nat list \<Rightarrow> nat list \<Rightarrow> block" where
  "NewBlock header txs receipts outcxs incxs stks =
     \<lparr>blk_header = header, blk_txs = txs, blk_receipts = receipts, blk_outcxs = outcxs,
      blk_incxs = incxs, blk_stks = stks\<rparr>"

fun mutateEPOSStatusLoop ::
  "staking_pkg \<Rightarrow> chain \<Rightarrow> address list \<Rightarrow> state \<Rightarrow> error + state" where
  "mutateEPOSStatusLoop stk chain [] st = Inr st"
| "mutateEPOSStatusLoop stk chain (addr # rest) st =
     (case ComputeAndMutateEPOSStatus stk chain st addr of
        Inl err \<Rightarrow> Inl err
      | Inr st' \<Rightarrow> mutateEPOSStatusLoop stk chain rest st')"

text \<open>The body of \<open>if IsCommitteeSelectionBlock(chain, header)\<close> in \<open>Finalize\<close>.\<close>

definition committeeSelectionUpdates ::
  "header_methods \<Rightarrow> shard_pkg \<Rightarrow> staking_pkg \<Rightarrow> chain \<Rightarrow> header \<Rightarrow> state \<Rightarrow> error + state" where
  "committeeSelectionUpdates hm shp stk chain header st =
     (case payoutUndelegations stk chain header st of
        Inl err \<Rightarrow> Inl err
      | Inr st1 \<Rightarrow>
          (case setLastEpochInCommittee hm shp header st1 of
             Inl err \<Rightarrow> Inl err
           | Inr st2 \<Rightarrow>
               (case ReadShardState chain (CurrentBlockEpoch chain) of
                  Inl err \<Rightarrow> Inl err
                | Inr curShardState \<Rightarrow>
                    mutateEPOSStatusLoop stk chain (StakedValidatorsAddrs shp curShardState) st2)))"

text \<open>
  The last lines of \<open>Finalize\<close>: the view id is stamped, then the state root, then the
  block is assembled.
\<close>

definition sealBlock ::
  "staking_pkg \<Rightarrow> chain \<Rightarrow> header \<Rightarrow> state
     \<Rightarrow> nat list \<Rightarrow> nat list \<Rightarrow> nat list \<Rightarrow> nat list \<Rightarrow> nat list
     \<Rightarrow> 64 word \<Rightarrow> nat \<Rightarrow> block \<times> nat \<times> state" where
  "sealBlock stk chain header st txs receipts outcxs incxs stks viewID' payout =
     (let header1 = header\<lparr>hdr_ViewID := uint viewID'\<rparr>;
          header2 =
            header1\<lparr>hdr_Root :=
              IntermediateRoot stk st (IsS3 (Config chain) (hdr_Epoch header1))\<rparr>
      in (NewBlock header2 txs receipts outcxs incxs stks, payout, st))"

text \<open>
  \<open>Finalize\<close> returns the block, the reward report and the state it has mutated, or the
  error. \<open>viewID\<close> is what the caller's \<open>viewID()\<close> returns; \<open>rangeKeys\<close> is the order in
  which the map of \<open>applySlashes\<close> is ranged over.
\<close>

definition Finalize ::
  "header_methods \<Rightarrow> shard_pkg \<Rightarrow> staking_pkg \<Rightarrow> state slash_pkg \<Rightarrow> keyStruct list
     \<Rightarrow> engineImpl \<Rightarrow> chain \<Rightarrow> header \<Rightarrow> state
     \<Rightarrow> nat list \<Rightarrow> nat list \<Rightarrow> nat list \<Rightarrow> nat list \<Rightarrow> nat list
     \<Rightarrow> slash_record list \<Rightarrow> bool \<Rightarrow> 64 word
     \<Rightarrow> error + (block \<times> nat \<times> state)" where
  "Finalize hm shp stk slp rangeKeys e chain header st txs receipts outcxs incxs stks
       doubleSigners sigsReady viewID' =
     (let isBeaconChain = (hdr_ShardID header = BeaconChainShardID);
          inStakingEra = IsStaking (Config chain) (hdr_Epoch header)
      in case (if IsCommitteeSelectionBlock hm chain header
               then committeeSelectionUpdates hm shp stk chain header st
               else Inr st) of
           Inl err \<Rightarrow> Inl err
         | Inr st1 \<Rightarrow>
             (case AccumulateRewardsAndCountSigs stk chain st1 header (beacon e) sigsReady of
                Inl err \<Rightarrow> Inl err
              | Inr (payout, st2) \<Rightarrow>
                  (case (if isBeaconChain \<and> inStakingEra \<and> length doubleSigners > 0
                         then applySlashes slp shp rangeKeys chain header st2 doubleSigners
                         else if length doubleSigners > 0 then Inl ErrSlashesInWrongChain
                         else Inr st2) of
                     Inl err \<Rightarrow> Inl err
                   | Inr st3 \<Rightarrow>
                       Inr (sealBlock stk chain header st3 txs receipts outcxs incxs stks
                              viewID' payout))))"

section \<open>Example values\<close>

text \<open>
  Concrete collaborators and inputs on which the theorems below are evaluated. The fork
  epochs of \<open>exampleConfig\<close> are increasing thresholds, as a chain configuration has them.
\<close>

definition exampleConfig :: chain_config where
  "exampleConfig =
     \<lparr>IsStaking = (\<lambda>ep. 186 \<le> ep), IsPreStaking = (\<lambda>ep. 185 \<le> ep), IsS3 = (\<lambda>ep. 28 \<le> ep),
      IsQuickUnlock = (\<lambda>ep. 191 \<le> ep), IsNoEarlyUnlock = (\<lambda>ep. 530 \<le> ep),
      IsRedelegation = (\<lambda>ep. 290 \<le> ep)\<rparr>"

definition exampleHeader :: "32 word \<Rightarrow> int \<Rightarrow> int \<Rightarrow> bytes \<Rightarrow> header" where
  "exampleHeader sid num ep blob =
     \<lparr>hdr_ParentHash = [1], hdr_Number = num, hdr_Epoch = ep, hdr_ShardID = sid,
      hdr_ViewID = num, hdr_Root = [], hdr_ShardState = blob,
      hdr_LastCommitSignature = [7, 7], hdr_LastCommitBitmap = [1]\<rparr>"

definition exampleShardState :: "int \<Rightarrow> shard_state" where
  "exampleShardState ep =
     \<lparr>ss_Epoch = Some ep,
      ss_Shards = [\<lparr>com_ShardID = 0, com_Slots = [\<lparr>EcdsaAddress = 11, BLSPublicKey = [5],
                     EffectiveStake = Some 100\<rparr>]\<rparr>,
                   \<lparr>com_ShardID = 1, com_Slots = [\<lparr>EcdsaAddress = 12, BLSPublicKey = [6],
                     EffectiveStake = None\<rparr>]\<rparr>]\<rparr>"

definition exampleChain :: "32 word \<Rightarrow> int \<Rightarrow> int \<Rightarrow> chain" where
  "exampleChain sid tip ep =
     \<lparr>GetHeader = (\<lambda>h n. if h = [1] then Some (exampleHeader sid (uint n) ep []) else None),
      CurrentHeader = exampleHeader sid tip ep [],
      CurrentBlockEpoch = ep,
      Config = exampleConfig,
      chain_ShardID = sid,
      ReadShardState = (\<lambda>e. Inr (exampleShardState e)),
      ReadValidatorList = Inr [11]\<rparr>"

definition exampleHeaderMethods :: header_methods where
  "exampleHeaderMethods =
     \<lparr>Hash = (\<lambda>h. [of_int (hdr_Number h), of_nat (unat (hdr_ShardID h))]),
      IsLastBlockInEpoch = (\<lambda>h. hdr_ShardState h \<noteq> []),
      GetShardState =
        (\<lambda>h. if hdr_ShardState h = [] then Inl (ErrCollaborator 5)
              else Inr (exampleShardState (hdr_Epoch h + 1)))\<rparr>"

definition exampleShardPkg :: shard_pkg where
  "exampleShardPkg =
     \<lparr>FindCommitteeByID =
        (\<lambda>ss sid. case filter (\<lambda>c. com_ShardID c = sid) (ss_Shards ss) of
                     [] \<Rightarrow> Inl (ErrCollaborator 1) | c # cs \<Rightarrow> Inr c),
      StakedValidatorsAddrs =
        (\<lambda>ss. map EcdsaAddress
                 (filter (\<lambda>s. EffectiveStake s \<noteq> None) (concat (map com_Slots (ss_Shards ss))))),
      EncodeWrapper = (\<lambda>ss isStaking. Inr [if isStaking then 1 else 0, of_nat (length (ss_Shards ss))]),
      Compute = (\<lambda>ep c. Inr (exampleShardState ep\<lparr>ss_Shards := []\<rparr>)),
      SuperCommitteeForNextEpoch = (\<lambda>bc beaconChain h verify. Inr (exampleShardState (hdr_Epoch h + 1)))\<rparr>"

text \<open>
  A signature package that, like the real one, rejects a bitmap whose length does not fit
  the committee, and accepts a 96-byte signature once a signer is marked.
\<close>

definition exampleSigPkg :: sig_pkg where
  "exampleSigPkg =
     \<lparr>BLSPublicKeys = (\<lambda>c. Inr (map EcdsaAddress (com_Slots c))),
      NewVerifier = (\<lambda>c ep isStaking. Inr (length (com_Slots c))),
      IsQuorumAchievedByMask = (\<lambda>qr msk. 2 * qr < 3 * msk),
      DecodeSigBitmap =
        (\<lambda>sig bm pks. if length bm \<noteq> (length pks + 7) div 8 then Inl (ErrCollaborator 2)
                       else Inr (length sig, sum_list (map unat bm))),
      AggregatePublic = (\<lambda>msk. msk),
      ConstructCommitPayload = (\<lambda>c ep h n v. h),
      VerifyHash = (\<lambda>aggSig pk payload. aggSig = 96)\<rparr>"

definition exampleStaking :: staking_pkg where
  "exampleStaking =
     \<lparr>LockPeriodInEpoch = 7,
      LockPeriodInEpochV2 = 2,
      RemoveUnlockedUndelegations =
        (\<lambda>d cur lastEpoch lockPeriod noEarlyUnlock.
           let unlocked = (\<lambda>u. cur - snd u \<ge> lockPeriod \<or>
                 (\<not> noEarlyUnlock \<and> (case lastEpoch of None \<Rightarrow> False
                                        | Some le \<Rightarrow> cur - le \<ge> lockPeriod)))
           in (sum_list (map fst (takeWhile unlocked (Undelegations d))),
               d\<lparr>Undelegations := dropWhile unlocked (Undelegations d)\<rparr>)),
      ComputeAndMutateEPOSStatus =
        (\<lambda>c st addr. case validators st addr of
                        None \<Rightarrow> Inl (ErrCollaborator 3)
                      | Some w \<Rightarrow> Inr (st\<lparr>validators := (validators st)(addr \<mapsto> w\<lparr>Status := 1\<rparr>)\<rparr>)),
      AccumulateRewardsAndCountSigs =
        (\<lambda>c st h b ready. if ready then Inr (28, AddBalance st 11 28) else Inl (ErrCollaborator 4)),
      IntermediateRoot = (\<lambda>st isS3. [if isS3 then 1 else 0, of_int (balances st 11)])\<rparr>"

text \<open>
  A chain whose shard 0 has a committee of 512 slots, so that a 64-byte bitmap fits it,
  and the engine as one successful verification leaves it.
\<close>

definition wideShardState :: shard_state where
  "wideShardState =
     \<lparr>ss_Epoch = Some 300,
      ss_Shards = [\<lparr>com_ShardID = 0,
                    com_Slots = replicate 512 \<lparr>EcdsaAddress = 11, BLSPublicKey = [5],
                                  EffectiveStake = Some 100\<rparr>\<rparr>]\<rparr>"

definition wideChain :: chain where
  "wideChain = (exampleChain 0 1000 300)\<lparr>ReadShardState := (\<lambda>ep. Inr wideShardState)\<rparr>"

definition verifiedEngine :: engineImpl where
  "verifiedEngine =
     snd (verifyHeaderSignatureCached exampleHeaderMethods exampleShardPkg exampleSigPkg NewEngine
            (exampleChain 0 1000 300) (exampleHeader 0 999 300 []) (replicate 96 7) [1])"

text \<open>
  Double-sign records, a slash package that debits every offender by the rate, and one
  whose state is the list of the groups applied so far.
\<close>

definition exampleRecord :: "32 word \<Rightarrow> 64 word \<Rightarrow> 64 word \<Rightarrow> address \<Rightarrow> slash_record" where
  "exampleRecord sid h v offender =
     \<lparr>Evidence = \<lparr>Moment = \<lparr>Epoch = 300, ShardID = sid\<rparr>, Height = h, ViewID = v\<rparr>,
      Offender = offender\<rparr>"

definition exampleSlashPkg :: "state slash_pkg" where
  "exampleSlashPkg =
     \<lparr>lookupVotingPower = (\<lambda>ep c. Inr (length (com_Slots c))),
      Rate = (\<lambda>votingPower records. length records),
      Apply = (\<lambda>c st records rate.
                 Inr (rate, fold (\<lambda>r s. AddBalance s (Offender r) (- int rate)) records st))\<rparr>"

definition recordingSlashPkg :: "(slash_record list list) slash_pkg" where
  "recordingSlashPkg =
     \<lparr>lookupVotingPower = (\<lambda>ep c. Inr (length (com_Slots c))),
      Rate = (\<lambda>votingPower records. length records),
      Apply = (\<lambda>c st records rate. Inr (rate, st @ [records]))\<rparr>"

text \<open>
  A state with one validator, last elected in epoch 290, and one delegator with an
  undelegation of 40 from epoch 280 and one of 60 from epoch 299.
\<close>

definition exampleWrapper :: validator_wrapper where
  "exampleWrapper =
     \<lparr>LastEpochInCommittee = Some 290, Status = 0,
      Delegations = [\<lparr>DelegatorAddress = 31, Amount = 500,
                      Undelegations = [(40, 280), (60, 299)]\<rparr>]\<rparr>"

definition exampleState :: state where
  "exampleState = \<lparr>validators = [11 \<mapsto> exampleWrapper], balances = (\<lambda>a. 0)\<rparr>"

definition paidOutState :: state where
  "paidOutState =
     \<lparr>validators =
        [11 \<mapsto> exampleWrapper\<lparr>Delegations :=
                  [\<lparr>DelegatorAddress = 31, Amount = 500, Undelegations = []\<rparr>]\<rparr>],
      balances = (\<lambda>a. 0)(31 := 100)\<rparr>"

text \<open>The state \<open>Finalize\<close> leaves when it is run on \<open>exampleState\<close> at the end of epoch 299.\<close>

definition finalizedState :: state where
  "finalizedState =
     AddBalance
       (paidOutState\<lparr>validators :=
          [11 \<mapsto> exampleWrapper\<lparr>Delegations :=
             [\<lparr>DelegatorAddress = 31, Amount = 500, Undelegations = []\<rparr>],
           LastEpochInCommittee := Some 300, Status := 1\<rparr>]\<rparr>) 11 28"

section \<open>Properties\<close>

subsection \<open>Lock period\<close>

text \<open>
  Claim C3, as amended. The lock period that \<open>GetLockPeriodInEpoch\<close> returns, and that
  \<open>payoutUndelegations\<close> hands to every delegation, is the V2 period exactly at the epochs
  where QuickUnlock holds and Redelegation does not; at every other epoch, also where
  both hold, it is the default period.
\<close>

theorem GetLockPeriodInEpoch_by_flags:
  "GetLockPeriodInEpoch stk chain ep =
     (if IsQuickUnlock (Config chain) ep \<and> \<not> IsRedelegation (Config chain) ep
      then LockPeriodInEpochV2 stk else LockPeriodInEpoch stk)
   \<and> payoutUndelegations stk chain header st =
       (case ReadValidatorList chain of
          Inl err \<Rightarrow> Inl ErrReadAllValidators
        | Inr validatorList \<Rightarrow>
            payoutValidators stk (hdr_Epoch header)
              (if IsQuickUnlock (Config chain) (hdr_Epoch header) \<and>
                  \<not> IsRedelegation (Config chain) (hdr_Epoch header)
               then LockPeriodInEpochV2 stk else LockPeriodInEpoch stk)
              (IsNoEarlyUnlock (Config chain) (hdr_Epoch header)) validatorList st)"
  by (simp add: GetLockPeriodInEpoch_def payoutUndelegations_def split: sum.split)

text \<open>
  Claim C3 as stated fails where QuickUnlock and Redelegation both hold: at epoch 300 of
  the example configuration the period is the default 7, not the V2 period 2.
\<close>

theorem GetLockPeriodInEpoch_redelegation_counterexample:
  "IsQuickUnlock (Config (exampleChain 0 1000 300)) 300
   \<and> GetLockPeriodInEpoch exampleStaking (exampleChain 0 1000 300) 300
       \<noteq> LockPeriodInEpochV2 exampleStaking
   \<and> GetLockPeriodInEpoch exampleStaking (exampleChain 0 1000 300) 300 = 7
   \<and> LockPeriodInEpochV2 exampleStaking = 2"
  by (simp add: GetLockPeriodInEpoch_def exampleChain_def exampleConfig_def exampleStaking_def)

subsection \<open>Shard state lookup\<close>

text \<open>
  Claim C6. \<open>readShardState\<close> recomputes the shard state with the committee-selection
  function exactly when the epoch is not a staking epoch and the target shard is not the
  chain's own; in every other case it returns what \<open>ReadShardState\<close> of the chain
  returns, whatever the committee-selection function is.
\<close>

theorem readShardState_recomputes_exactly_when:
  "needRecalculateStateShard chain ep targetShardID =
     (\<not> IsStaking (Config chain) ep \<and> targetShardID \<noteq> chain_ShardID chain)
   \<and> readShardState shp chain ep targetShardID =
     (if \<not> IsStaking (Config chain) ep \<and> targetShardID \<noteq> chain_ShardID chain
      then (case Compute shp ep chain of
              Inl err \<Rightarrow> Inl (ErrComputeShardState ep err) | Inr ss \<Rightarrow> Inr ss)
      else (case ReadShardState chain ep of
              Inl err \<Rightarrow> Inl (ErrReadShardState ep err) | Inr ss \<Rightarrow> Inr ss))
   \<and> readShardState (shp\<lparr>Compute := compute'\<rparr>) chain ep targetShardID =
     (if \<not> IsStaking (Config chain) ep \<and> targetShardID \<noteq> chain_ShardID chain
      then (case compute' ep chain of
              Inl err \<Rightarrow> Inl (ErrComputeShardState ep err) | Inr ss \<Rightarrow> Inr ss)
      else readShardState shp chain ep targetShardID)"
  by (simp add: readShardState_def needRecalculateStateShard_def)

subsection \<open>Shard state verification\<close>

text \<open>
  Claim C10. \<open>VerifyShardState\<close> fails when the chain's shard id is not the header's;
  succeeds when the ids agree and the header's shard-state blob is empty; and with a
  non-empty blob succeeds exactly when the next epoch's super-committee is computed and
  its encoding, with the staking flag set iff its epoch is a staking epoch, equals the
  blob. An encoding that differs from the blob gives the mismatch error.
\<close>

theorem VerifyShardState_verdict:
  "(chain_ShardID bc \<noteq> hdr_ShardID header \<longrightarrow>
      VerifyShardState shp bc beaconChain header =
        Some (ErrShardIDNotMatch (chain_ShardID bc) (hdr_ShardID header)))
   \<and> (chain_ShardID bc = hdr_ShardID header \<and> hdr_ShardState header = [] \<longrightarrow>
        VerifyShardState shp bc beaconChain header = None)
   \<and> (chain_ShardID bc = hdr_ShardID header \<and> hdr_ShardState header \<noteq> [] \<longrightarrow>
        (VerifyShardState shp bc beaconChain header = None \<longleftrightarrow>
           (\<exists>ss. SuperCommitteeForNextEpoch shp bc beaconChain header True = Inr ss \<and>
                 EncodeWrapper shp ss (\<exists>ep. ss_Epoch ss = Some ep \<and> IsStaking (Config bc) ep)
                   = Inr (hdr_ShardState header)))
        \<and> (\<forall>ss enc. SuperCommitteeForNextEpoch shp bc beaconChain header True = Inr ss \<and>
                 EncodeWrapper shp ss (\<exists>ep. ss_Epoch ss = Some ep \<and> IsStaking (Config bc) ep)
                   = Inr enc \<and> enc \<noteq> hdr_ShardState header \<longrightarrow>
              VerifyShardState shp bc beaconChain header = Some ErrShardStateNotMatch))"
proof -
  have flag: "\<And>ss. (case ss_Epoch ss of None \<Rightarrow> False
                      | Some ep \<Rightarrow> if IsStaking (Config bc) ep then True else False)
                = (\<exists>ep. ss_Epoch ss = Some ep \<and> IsStaking (Config bc) ep)"
    by (simp split: option.split)
  show ?thesis
    unfolding VerifyShardState_def Let_def flag
    by (auto split: sum.splits)
qed

theorem VerifyShardState_verdict_witness:
  "chain_ShardID (exampleChain 0 1000 299) \<noteq> hdr_ShardID (exampleHeader 1 1000 299 [1, 2])
   \<and> VerifyShardState exampleShardPkg (exampleChain 0 1000 299) (exampleChain 0 1000 299)
        (exampleHeader 1 1000 299 [1, 2]) = Some (ErrShardIDNotMatch 0 1)
   \<and> VerifyShardState exampleShardPkg (exampleChain 0 1000 299) (exampleChain 0 1000 299)
        (exampleHeader 0 1000 299 []) = None
   \<and> VerifyShardState exampleShardPkg (exampleChain 0 1000 299) (exampleChain 0 1000 299)
        (exampleHeader 0 1000 299 [1, 2]) = None
   \<and> VerifyShardState exampleShardPkg (exampleChain 0 1000 299) (exampleChain 0 1000 299)
        (exampleHeader 0 1000 299 [0, 2]) = Some ErrShardStateNotMatch"
  using VerifyShardState_verdict [where bc = "exampleChain 0 1000 299"
          and beaconChain = "exampleChain 0 1000 299" and shp = exampleShardPkg
          and header = "exampleHeader 1 1000 299 [1, 2]"]
        VerifyShardState_verdict [where bc = "exampleChain 0 1000 299"
          and beaconChain = "exampleChain 0 1000 299" and shp = exampleShardPkg
          and header = "exampleHeader 0 1000 299 []"]
        VerifyShardState_verdict [where bc = "exampleChain 0 1000 299"
          and beaconChain = "exampleChain 0 1000 299" and shp = exampleShardPkg
          and header = "exampleHeader 0 1000 299 [1, 2]"]
        VerifyShardState_verdict [where bc = "exampleChain 0 1000 299"
          and beaconChain = "exampleChain 0 1000 299" and shp = exampleShardPkg
          and header = "exampleHeader 0 1000 299 [0, 2]"]
  by (simp add: exampleChain_def exampleHeader_def exampleShardPkg_def exampleShardState_def
        exampleConfig_def)

subsection \<open>Genesis shortcut\<close>

lemma Uint64_le_1: "0 \<le> n \<Longrightarrow> n \<le> 1 \<Longrightarrow> Uint64 n \<le> 1"
proof -
  assume "0 \<le> n" "n \<le> 1"
  then have "n = 0 \<or> n = 1" by arith
  then show ?thesis by (auto simp: Uint64_def)
qed

text \<open>
  Claim C9. When the chain tip's block number is 0 or 1, \<open>VerifySeal\<close> and
  \<open>VerifyHeaderSignature\<close> return success for every header (also the nil header), every
  signature and bitmap, every engine state and every collaborator package, and leave the
  engine as it was.
\<close>

theorem genesis_shortcut:
  assumes "0 \<le> hdr_Number (CurrentHeader chain)" and "hdr_Number (CurrentHeader chain) \<le> 1"
  shows "VerifySeal hm shp sgp e chain headerPtr = (None, e)
       \<and> VerifyHeaderSignature hm shp sgp e chain header commitSig commitBitmap = (None, e)"
  using Uint64_le_1 [OF assms]
  by (simp add: VerifySeal_def VerifyHeaderSignature_def)

theorem genesis_shortcut_witness:
  "0 \<le> hdr_Number (CurrentHeader (exampleChain 1 1 0))
   \<and> hdr_Number (CurrentHeader (exampleChain 1 1 0)) \<le> 1
   \<and> VerifySeal exampleHeaderMethods exampleShardPkg exampleSigPkg NewEngine (exampleChain 1 1 0)
        (Some (exampleHeader 1 2 0 [])) = (None, NewEngine)
   \<and> VerifyHeaderSignature exampleHeaderMethods exampleShardPkg exampleSigPkg NewEngine
        (exampleChain 1 1 0) (exampleHeader 0 5 0 []) [7, 7] [1, 0] = (None, NewEngine)"
proof -
  have lo: "0 \<le> hdr_Number (CurrentHeader (exampleChain 1 1 0))"
    by (simp add: exampleChain_def exampleHeader_def)
  have hi: "hdr_Number (CurrentHeader (exampleChain 1 1 0)) \<le> 1"
    by (simp add: exampleChain_def exampleHeader_def)
  show ?thesis
    using lo hi genesis_shortcut [OF lo hi] by simp
qed

subsection \<open>The verified-signature memo\<close>

lemma map_of_filter_other: "k' \<noteq> k \<Longrightarrow> map_of (filter (\<lambda>e. fst e \<noteq> k) c) k' = map_of c k'"
  by (induction c) auto

lemma map_of_move_to_front:
  "map_of c k = Some v \<Longrightarrow> (map_of (filter (\<lambda>e. fst e \<noteq> k) c))(k \<mapsto> v) = map_of c"
  by (rule ext) (simp add: map_of_filter_other)

lemma lruGet_fst: "fst (lruGet c k) = map_of c k"
  by (simp add: lruGet_def split: option.split)

lemma lruGet_miss: "map_of c k = None \<Longrightarrow> lruGet c k = (None, c)"
  by (simp add: lruGet_def)

lemma lruGet_map_of: "map_of (snd (lruGet c k)) = map_of c"
  by (simp add: lruGet_def map_of_move_to_front split: option.split)

lemma map_of_butlast_head:
  "length c \<ge> 1 \<Longrightarrow> map_of (butlast ((k, v) # c)) k = Some v"
  by (cases c) auto

lemma lruAdd_present: "0 < cap \<Longrightarrow> map_of (lruAdd cap c k v) k = Some v"
  by (cases c) (auto simp: lruAdd_def Let_def split: option.split)

lemma lruAdd_keys: "fst ` set (lruAdd cap c k v) \<subseteq> insert k (fst ` set c)"
  by (auto simp: lruAdd_def Let_def split: option.splits dest: in_set_butlastD)

lemma lruGet_keys: "fst ` set (snd (lruGet c k)) \<subseteq> fst ` set c"
proof (cases "map_of c k")
  case None
  then show ?thesis by (simp add: lruGet_def)
next
  case (Some v)
  then have "(k, v) \<in> set c" by (rule map_of_SomeD)
  then have "k \<in> fst ` set c" by force
  with Some show ?thesis by (auto simp: lruGet_def)
qed

lemma getCachedEpochCtx_fst:
  "fst (getCachedEpochCtx e header) =
     (case map_of (epochCtxCache e) (newEpochCtxKeyFromHeader header) of
        Some (Some ec) \<Rightarrow> Some ec | _ \<Rightarrow> None)"
  by (simp add: getCachedEpochCtx_def Let_def lruGet_def split: option.split prod.split)

lemma getCachedEpochCtx_snd:
  "snd (getCachedEpochCtx e header) =
     e\<lparr>epochCtxCache := snd (lruGet (epochCtxCache e) (newEpochCtxKeyFromHeader header))\<rparr>"
  by (simp add: getCachedEpochCtx_def Let_def split: option.split prod.split)

lemma verifyHeaderSignature_snd:
  "snd (verifyHeaderSignature hm shp sgp e chain header sig bm) = snd (getCachedEpochCtx e header)"
  by (simp add: verifyHeaderSignature_def Let_def split: prod.split sum.split option.split)

lemma verifyHeaderSignature_sigCache:
  "verifiedSigCache (snd (verifyHeaderSignature hm shp sgp e chain header sig bm)) = verifiedSigCache e"
  by (simp add: verifyHeaderSignature_snd getCachedEpochCtx_snd)

lemma verifyHeaderSignature_fst:
  "fst (verifyHeaderSignature hm shp sgp e chain header sig bm) =
     (case (case fst (getCachedEpochCtx e header) of
              Some ec \<Rightarrow> Inr ec
            | None \<Rightarrow> readEpochCtxFromChain shp sgp chain (hdr_Epoch header) (hdr_ShardID header)) of
        Inl err \<Rightarrow> Some err
      | Inr ec \<Rightarrow>
          (case DecodeSigBitmap sgp sig bm (pubKeys ec) of
             Inl err \<Rightarrow> Some (ErrDeserializeSigBitmap err)
           | Inr (aggSig, msk) \<Rightarrow>
               if \<not> IsQuorumAchievedByMask sgp (qrVerifier ec) msk then Some ErrNotEnoughSignature
               else if \<not> VerifyHash sgp aggSig (AggregatePublic sgp msk)
                         (ConstructCommitPayload sgp chain (hdr_Epoch header) (Hash hm header)
                            (Uint64 (hdr_Number header)) (Uint64 (hdr_ViewID header)))
               then Some ErrVerifyAggregatedSig else None))"
  by (simp add: verifyHeaderSignature_def Let_def split_beta split: sum.split option.split)

lemma verifyHeaderSignature_fst_cong:
  "map_of (epochCtxCache e') = map_of (epochCtxCache e) \<Longrightarrow>
   fst (verifyHeaderSignature hm shp sgp e' chain header sig bm)
     = fst (verifyHeaderSignature hm shp sgp e chain header sig bm)"
  by (simp add: verifyHeaderSignature_fst getCachedEpochCtx_fst)


lemma newVerifiedSigKey_take:
  "take 64 bm1 = take 64 bm2 \<Longrightarrow> newVerifiedSigKey bh sig bm1 = newVerifiedSigKey bh sig bm2"
proof -
  assume t: "take 64 bm1 = take 64 bm2"
  then have "length (take 64 bm1) = length (take 64 bm2)" by simp
  then have "64 - length bm1 = 64 - length bm2" by simp
  with t show ?thesis by (simp add: newVerifiedSigKey_def bitmapKeyBytes_def)
qed

lemma newVerifiedSigKey_zero_padding:
  "length bm + n \<le> 64 \<Longrightarrow>
   newVerifiedSigKey bh sig (bm @ replicate n 0) = newVerifiedSigKey bh sig bm"
  by (simp add: newVerifiedSigKey_def bitmapKeyBytes_def replicate_add [symmetric])

lemma cached_hit:
  "map_of (verifiedSigCache e) (newVerifiedSigKey (Hash hm header) sig bm) = Some u \<Longrightarrow>
   verifyHeaderSignatureCached hm shp sgp e chain header sig bm =
     (None, e\<lparr>verifiedSigCache :=
                snd (lruGet (verifiedSigCache e) (newVerifiedSigKey (Hash hm header) sig bm))\<rparr>)"
  by (simp add: verifyHeaderSignatureCached_def Let_def split_beta lruGet_fst)

lemma cached_miss:
  "map_of (verifiedSigCache e) (newVerifiedSigKey (Hash hm header) sig bm) = None \<Longrightarrow>
   verifyHeaderSignatureCached hm shp sgp e chain header sig bm =
     (case verifyHeaderSignature hm shp sgp e chain header sig bm of
        (Some err, e2) \<Rightarrow> (Some err, e2)
      | (None, e2) \<Rightarrow>
          (None, e2\<lparr>verifiedSigCache :=
                      lruAdd verifiedSigCacheSize (verifiedSigCache e2)
                        (newVerifiedSigKey (Hash hm header) sig bm) ()\<rparr>))"
  by (simp add: verifyHeaderSignatureCached_def Let_def lruGet_miss)

lemma cached_success_present:
  assumes "fst (verifyHeaderSignatureCached hm shp sgp e chain header sig bm) = None"
  shows "map_of (verifiedSigCache (snd (verifyHeaderSignatureCached hm shp sgp e chain header sig bm)))
           (newVerifiedSigKey (Hash hm header) sig bm) = Some ()"
proof (cases "map_of (verifiedSigCache e) (newVerifiedSigKey (Hash hm header) sig bm)")
  case None
  with assms show ?thesis
    by (auto simp: cached_miss lruAdd_present verifiedSigCacheSize_def split: prod.splits option.splits)
next
  case (Some u)
  then show ?thesis
    by (simp add: cached_hit lruGet_map_of)
qed


lemma cached_miss_sigCache:
  assumes "map_of (verifiedSigCache e) (newVerifiedSigKey (Hash hm header) sig bm) = None"
  shows "verifiedSigCache (snd (verifyHeaderSignatureCached hm shp sgp e chain header sig bm)) =
           (if fst (verifyHeaderSignature hm shp sgp e chain header sig bm) = None
            then lruAdd verifiedSigCacheSize (verifiedSigCache e)
                   (newVerifiedSigKey (Hash hm header) sig bm) ()
            else verifiedSigCache e)"
proof -
  obtain r e2 where f: "verifyHeaderSignature hm shp sgp e chain header sig bm = (r, e2)"
    by (cases "verifyHeaderSignature hm shp sgp e chain header sig bm")
  have c: "verifiedSigCache e2 = verifiedSigCache e"
    using verifyHeaderSignature_sigCache [of hm shp sgp e chain header sig bm] by (simp add: f)
  show ?thesis
    by (cases r) (simp_all add: cached_miss [OF assms] f c)
qed

text \<open>
  Claim C4, as amended. While the memo holds no entry under the key of the triple (the
  header hash, the signature and the bitmap cut or zero-padded to 64 bytes),
  \<open>verifyHeaderSignatureCached\<close> returns the verdict of \<open>verifyHeaderSignature\<close>; a
  failed verification leaves the memo as it was, so the same call made again verifies
  again and fails again. While the memo holds such an entry the call succeeds. A call
  that succeeds leaves the key in the memo, and no call puts any other key there.
\<close>

theorem verifyHeaderSignatureCached_memo:
  "(map_of (verifiedSigCache e) (newVerifiedSigKey (Hash hm header) sig bm) = None \<longrightarrow>
      fst (verifyHeaderSignatureCached hm shp sgp e chain header sig bm)
        = fst (verifyHeaderSignature hm shp sgp e chain header sig bm)
    \<and> (fst (verifyHeaderSignature hm shp sgp e chain header sig bm) \<noteq> None \<longrightarrow>
         verifiedSigCache (snd (verifyHeaderSignatureCached hm shp sgp e chain header sig bm))
           = verifiedSigCache e
       \<and> fst (verifyHeaderSignatureCached hm shp sgp
                (snd (verifyHeaderSignatureCached hm shp sgp e chain header sig bm))
                chain header sig bm)
           = fst (verifyHeaderSignature hm shp sgp e chain header sig bm)))
   \<and> (map_of (verifiedSigCache e) (newVerifiedSigKey (Hash hm header) sig bm) \<noteq> None \<longrightarrow>
        fst (verifyHeaderSignatureCached hm shp sgp e chain header sig bm) = None)
   \<and> (fst (verifyHeaderSignatureCached hm shp sgp e chain header sig bm) = None \<longrightarrow>
        map_of (verifiedSigCache (snd (verifyHeaderSignatureCached hm shp sgp e chain header sig bm)))
          (newVerifiedSigKey (Hash hm header) sig bm) = Some ())
   \<and> fst ` set (verifiedSigCache (snd (verifyHeaderSignatureCached hm shp sgp e chain header sig bm)))
        \<subseteq> insert (newVerifiedSigKey (Hash hm header) sig bm) (fst ` set (verifiedSigCache e))"
proof -
  let ?key = "newVerifiedSigKey (Hash hm header) sig bm"
  let ?fresh = "verifyHeaderSignature hm shp sgp e chain header sig bm"
  let ?memo = "verifyHeaderSignatureCached hm shp sgp e chain header sig bm"
  have miss_verdict: "fst ?memo = fst ?fresh" if "map_of (verifiedSigCache e) ?key = None"
    using that by (simp add: cached_miss split: prod.split option.split)
  have miss_fail: "snd ?memo = snd ?fresh"
    if "map_of (verifiedSigCache e) ?key = None" and "fst ?fresh \<noteq> None"
    using that by (auto simp: cached_miss split: prod.split option.split)
  have rerun: "fst (verifyHeaderSignatureCached hm shp sgp (snd ?memo) chain header sig bm) = fst ?fresh"
    if m: "map_of (verifiedSigCache e) ?key = None" and f: "fst ?fresh \<noteq> None"
  proof -
    have s: "snd ?memo = snd ?fresh" by (rule miss_fail [OF m f])
    have still: "map_of (verifiedSigCache (snd ?memo)) ?key = None"
      by (simp add: s verifyHeaderSignature_sigCache m)
    have ctx: "map_of (epochCtxCache (snd ?memo)) = map_of (epochCtxCache e)"
      by (simp add: s verifyHeaderSignature_snd getCachedEpochCtx_snd lruGet_map_of)
    have "fst (verifyHeaderSignatureCached hm shp sgp (snd ?memo) chain header sig bm)
            = fst (verifyHeaderSignature hm shp sgp (snd ?memo) chain header sig bm)"
      using still by (simp add: cached_miss split: prod.split option.split)
    also have "\<dots> = fst ?fresh" by (rule verifyHeaderSignature_fst_cong [OF ctx])
    finally show ?thesis .
  qed
  have hit: "fst ?memo = None" if "map_of (verifiedSigCache e) ?key \<noteq> None"
    using that by (auto simp: cached_hit)
  have keys: "fst ` set (verifiedSigCache (snd ?memo)) \<subseteq> insert ?key (fst ` set (verifiedSigCache e))"
  proof (cases "map_of (verifiedSigCache e) ?key")
    case None
    then show ?thesis
      using lruAdd_keys [of verifiedSigCacheSize "verifiedSigCache e" ?key "()"]
      by (auto simp: cached_miss_sigCache)
  next
    case (Some u)
    then show ?thesis
      using lruGet_keys [of "verifiedSigCache e" ?key] by (auto simp: cached_hit)
  qed
  show ?thesis
    using miss_verdict miss_fail rerun hit keys cached_success_present
    by (simp add: verifyHeaderSignature_sigCache)
qed


lemma example_fresh_ok:
  "verifyHeaderSignature exampleHeaderMethods exampleShardPkg exampleSigPkg NewEngine
     (exampleChain 0 1000 300) (exampleHeader 0 999 300 []) (replicate 96 7) [1] = (None, NewEngine)"
  by (simp add: verifyHeaderSignature_def getCachedEpochCtx_def lruGet_def NewEngine_def
        readEpochCtxFromChain_def readShardState_def needRecalculateStateShard_def
        exampleChain_def exampleConfig_def exampleHeader_def exampleShardState_def
        exampleShardPkg_def exampleSigPkg_def)

lemma example_fresh_rejects:
  "fst (verifyHeaderSignature exampleHeaderMethods exampleShardPkg exampleSigPkg e
     (exampleChain 0 1000 300) (exampleHeader 0 999 300 []) (replicate 96 7) [1, 0])
   = Some (ErrDeserializeSigBitmap (ErrCollaborator 2))"
  if "epochCtxCache e = []"
  using that
  by (simp add: verifyHeaderSignature_fst getCachedEpochCtx_fst
        readEpochCtxFromChain_def readShardState_def needRecalculateStateShard_def
        exampleChain_def exampleConfig_def exampleHeader_def exampleShardState_def
        exampleShardPkg_def exampleSigPkg_def)

lemma verifiedEngine_eq:
  "verifiedEngine =
     NewEngine\<lparr>verifiedSigCache :=
       [(newVerifiedSigKey (Hash exampleHeaderMethods (exampleHeader 0 999 300 []))
           (replicate 96 7) [1], ())]\<rparr>"
proof -
  have "map_of (verifiedSigCache NewEngine)
          (newVerifiedSigKey (Hash exampleHeaderMethods (exampleHeader 0 999 300 []))
             (replicate 96 7) [1]) = None"
    by (simp add: NewEngine_def)
  then show ?thesis
    unfolding verifiedEngine_def
    by (simp add: cached_miss example_fresh_ok)
       (simp add: NewEngine_def lruAdd_def verifiedSigCacheSize_def)
qed

lemma example_key_collision:
  "newVerifiedSigKey bh sg [1, 0] = newVerifiedSigKey bh sg [1]"
  using newVerifiedSigKey_zero_padding [of "[1]" 1 bh sg] by simp

text \<open>
  Claim C4 as stated fails: after the one-byte bitmap \<open>[1]\<close> has been verified for a
  header and signature, the bitmap \<open>[1, 0]\<close> has the same key, so the memo answers
  success for it, while a verification of that triple rejects the bitmap for its length.
\<close>

theorem memo_padding_counterexample:
  "fst (verifyHeaderSignatureCached exampleHeaderMethods exampleShardPkg exampleSigPkg NewEngine
          (exampleChain 0 1000 300) (exampleHeader 0 999 300 []) (replicate 96 7) [1]) = None
   \<and> fst (verifyHeaderSignatureCached exampleHeaderMethods exampleShardPkg exampleSigPkg
            verifiedEngine (exampleChain 0 1000 300) (exampleHeader 0 999 300 [])
            (replicate 96 7) [1, 0]) = None
   \<and> fst (verifyHeaderSignature exampleHeaderMethods exampleShardPkg exampleSigPkg
            verifiedEngine (exampleChain 0 1000 300) (exampleHeader 0 999 300 [])
            (replicate 96 7) [1, 0]) = Some (ErrDeserializeSigBitmap (ErrCollaborator 2))"
proof -
  have first: "fst (verifyHeaderSignatureCached exampleHeaderMethods exampleShardPkg exampleSigPkg
          NewEngine (exampleChain 0 1000 300) (exampleHeader 0 999 300 []) (replicate 96 7) [1]) = None"
  proof -
    have "map_of (verifiedSigCache NewEngine)
            (newVerifiedSigKey (Hash exampleHeaderMethods (exampleHeader 0 999 300 []))
               (replicate 96 7) [1]) = None"
      by (simp add: NewEngine_def)
    then show ?thesis by (simp add: cached_miss example_fresh_ok)
  qed
  have hit: "fst (verifyHeaderSignatureCached exampleHeaderMethods exampleShardPkg exampleSigPkg
            verifiedEngine (exampleChain 0 1000 300) (exampleHeader 0 999 300 [])
            (replicate 96 7) [1, 0]) = None"
    by (simp add: cached_hit [where u = "()"] verifiedEngine_eq example_key_collision)
  have fresh: "fst (verifyHeaderSignature exampleHeaderMethods exampleShardPkg exampleSigPkg
            verifiedEngine (exampleChain 0 1000 300) (exampleHeader 0 999 300 [])
            (replicate 96 7) [1, 0]) = Some (ErrDeserializeSigBitmap (ErrCollaborator 2))"
    by (rule example_fresh_rejects) (simp add: verifiedEngine_eq NewEngine_def)
  from first hit fresh show ?thesis by simp
qed


theorem verifyHeaderSignatureCached_memo_witness:
  "map_of (verifiedSigCache NewEngine)
     (newVerifiedSigKey (Hash exampleHeaderMethods (exampleHeader 0 999 300 []))
        (replicate 96 7) [1, 0]) = None
   \<and> fst (verifyHeaderSignature exampleHeaderMethods exampleShardPkg exampleSigPkg NewEngine
            (exampleChain 0 1000 300) (exampleHeader 0 999 300 []) (replicate 96 7) [1, 0]) \<noteq> None
   \<and> fst (verifyHeaderSignatureCached exampleHeaderMethods exampleShardPkg exampleSigPkg NewEngine
            (exampleChain 0 1000 300) (exampleHeader 0 999 300 []) (replicate 96 7) [1, 0])
        = Some (ErrDeserializeSigBitmap (ErrCollaborator 2))
   \<and> verifiedSigCache
        (snd (verifyHeaderSignatureCached exampleHeaderMethods exampleShardPkg exampleSigPkg
                NewEngine (exampleChain 0 1000 300) (exampleHeader 0 999 300 [])
                (replicate 96 7) [1, 0])) = []
   \<and> fst (verifyHeaderSignatureCached exampleHeaderMethods exampleShardPkg exampleSigPkg
            (snd (verifyHeaderSignatureCached exampleHeaderMethods exampleShardPkg exampleSigPkg
                    NewEngine (exampleChain 0 1000 300) (exampleHeader 0 999 300 [])
                    (replicate 96 7) [1, 0]))
            (exampleChain 0 1000 300) (exampleHeader 0 999 300 []) (replicate 96 7) [1, 0])
        = Some (ErrDeserializeSigBitmap (ErrCollaborator 2))
   \<and> map_of (verifiedSigCache verifiedEngine)
        (newVerifiedSigKey (Hash exampleHeaderMethods (exampleHeader 0 999 300 []))
           (replicate 96 7) [1]) \<noteq> None
   \<and> fst (verifyHeaderSignatureCached exampleHeaderMethods exampleShardPkg exampleSigPkg
            verifiedEngine (exampleChain 0 1000 300) (exampleHeader 0 999 300 [])
            (replicate 96 7) [1]) = None"
proof -
  have miss: "map_of (verifiedSigCache NewEngine)
     (newVerifiedSigKey (Hash exampleHeaderMethods (exampleHeader 0 999 300 []))
        (replicate 96 7) [1, 0]) = None"
    by (simp add: NewEngine_def)
  have rejects: "fst (verifyHeaderSignature exampleHeaderMethods exampleShardPkg exampleSigPkg
            NewEngine (exampleChain 0 1000 300) (exampleHeader 0 999 300 []) (replicate 96 7) [1, 0])
          = Some (ErrDeserializeSigBitmap (ErrCollaborator 2))"
    by (rule example_fresh_rejects) (simp add: NewEngine_def)
  have empty: "verifiedSigCache NewEngine = []"
    by (simp add: NewEngine_def)
  have present: "map_of (verifiedSigCache verifiedEngine)
        (newVerifiedSigKey (Hash exampleHeaderMethods (exampleHeader 0 999 300 []))
           (replicate 96 7) [1]) \<noteq> None"
    by (simp add: verifiedEngine_eq)
  show ?thesis
    using miss rejects empty present
      verifyHeaderSignatureCached_memo [where e = NewEngine and hm = exampleHeaderMethods
        and shp = exampleShardPkg and sgp = exampleSigPkg and chain = "exampleChain 0 1000 300"
        and header = "exampleHeader 0 999 300 []" and sig = "replicate 96 7" and bm = "[1, 0]"]
      verifyHeaderSignatureCached_memo [where e = verifiedEngine and hm = exampleHeaderMethods
        and shp = exampleShardPkg and sgp = exampleSigPkg and chain = "exampleChain 0 1000 300"
        and header = "exampleHeader 0 999 300 []" and sig = "replicate 96 7" and bm = "[1]"]
    by simp
qed

text \<open>
  Claim C5. Two bitmaps with the same first 64 bytes give the same key for the same block
  hash and signature, as do a bitmap and its 64-byte prefix. So once
  \<open>verifyHeaderSignatureCached\<close> has succeeded with one of them, a call with the other,
  the same signature and a header of the same hash succeeds whatever the chain and the
  packages that would decode and verify are.
\<close>

theorem verifiedSigKey_prefix_collision:
  assumes "take 64 bm1 = take 64 bm2"
  shows "newVerifiedSigKey bh sig bm1 = newVerifiedSigKey bh sig bm2
       \<and> newVerifiedSigKey bh sig (take 64 bm1) = newVerifiedSigKey bh sig bm1
       \<and> (Hash hm' header' = Hash hm header \<and>
            fst (verifyHeaderSignatureCached hm shp sgp e chain header sig bm1) = None \<longrightarrow>
            fst (verifyHeaderSignatureCached hm' shp' sgp'
                   (snd (verifyHeaderSignatureCached hm shp sgp e chain header sig bm1))
                   chain' header' sig bm2) = None)"
proof -
  have k: "\<And>h. newVerifiedSigKey h sig bm1 = newVerifiedSigKey h sig bm2"
    by (rule newVerifiedSigKey_take [OF assms])
  have p: "newVerifiedSigKey bh sig (take 64 bm1) = newVerifiedSigKey bh sig bm1"
    by (rule newVerifiedSigKey_take) simp
  have c: "fst (verifyHeaderSignatureCached hm' shp' sgp'
                   (snd (verifyHeaderSignatureCached hm shp sgp e chain header sig bm1))
                   chain' header' sig bm2) = None"
    if h: "Hash hm' header' = Hash hm header"
      and ok: "fst (verifyHeaderSignatureCached hm shp sgp e chain header sig bm1) = None"
  proof -
    have "map_of (verifiedSigCache (snd (verifyHeaderSignatureCached hm shp sgp e chain header sig bm1)))
            (newVerifiedSigKey (Hash hm' header') sig bm2) = Some ()"
      using cached_success_present [OF ok] by (simp add: h k)
    then show ?thesis by (simp add: cached_hit)
  qed
  from k p c show ?thesis by simp
qed

lemma wide_fresh_ok:
  "verifyHeaderSignature exampleHeaderMethods exampleShardPkg exampleSigPkg NewEngine
     wideChain (exampleHeader 0 999 300 []) (replicate 96 7) (replicate 64 255) = (None, NewEngine)"
  by (simp add: verifyHeaderSignature_def getCachedEpochCtx_def lruGet_def NewEngine_def
        readEpochCtxFromChain_def readShardState_def needRecalculateStateShard_def
        wideChain_def wideShardState_def sum_list_replicate
        exampleChain_def exampleConfig_def exampleHeader_def
        exampleShardPkg_def exampleSigPkg_def)

lemma wide_fresh_rejects:
  "fst (verifyHeaderSignature exampleHeaderMethods exampleShardPkg exampleSigPkg e
     wideChain (exampleHeader 0 999 300 []) (replicate 96 7) (replicate 64 255 @ [9]))
   = Some (ErrDeserializeSigBitmap (ErrCollaborator 2))"
  if "epochCtxCache e = []"
  using that
  by (simp add: verifyHeaderSignature_fst getCachedEpochCtx_fst
        readEpochCtxFromChain_def readShardState_def needRecalculateStateShard_def
        wideChain_def wideShardState_def
        exampleChain_def exampleConfig_def exampleHeader_def
        exampleShardPkg_def exampleSigPkg_def)

theorem verifiedSigKey_prefix_collision_witness:
  "take 64 (replicate 64 255 :: bytes) = take 64 (replicate 64 255 @ [9])
   \<and> fst (verifyHeaderSignatureCached exampleHeaderMethods exampleShardPkg exampleSigPkg NewEngine
            wideChain (exampleHeader 0 999 300 []) (replicate 96 7) (replicate 64 255)) = None
   \<and> newVerifiedSigKey [231, 0] (replicate 96 7) (replicate 64 255)
        = newVerifiedSigKey [231, 0] (replicate 96 7) (replicate 64 255 @ [9])
   \<and> fst (verifyHeaderSignatureCached exampleHeaderMethods exampleShardPkg exampleSigPkg
            (snd (verifyHeaderSignatureCached exampleHeaderMethods exampleShardPkg exampleSigPkg
                    NewEngine wideChain (exampleHeader 0 999 300 []) (replicate 96 7)
                    (replicate 64 255)))
            wideChain (exampleHeader 0 999 300 []) (replicate 96 7) (replicate 64 255 @ [9])) = None
   \<and> fst (verifyHeaderSignature exampleHeaderMethods exampleShardPkg exampleSigPkg
            (snd (verifyHeaderSignatureCached exampleHeaderMethods exampleShardPkg exampleSigPkg
                    NewEngine wideChain (exampleHeader 0 999 300 []) (replicate 96 7)
                    (replicate 64 255)))
            wideChain (exampleHeader 0 999 300 []) (replicate 96 7) (replicate 64 255 @ [9]))
        = Some (ErrDeserializeSigBitmap (ErrCollaborator 2))"
proof -
  have pre: "take 64 (replicate 64 255 :: bytes) = take 64 (replicate 64 255 @ [9])"
    by simp
  have miss: "map_of (verifiedSigCache NewEngine)
            (newVerifiedSigKey (Hash exampleHeaderMethods (exampleHeader 0 999 300 []))
               (replicate 96 7) (replicate 64 255)) = None"
    by (simp add: NewEngine_def)
  have first: "fst (verifyHeaderSignatureCached exampleHeaderMethods exampleShardPkg exampleSigPkg
            NewEngine wideChain (exampleHeader 0 999 300 []) (replicate 96 7) (replicate 64 255)) = None"
    by (simp add: cached_miss [OF miss] wide_fresh_ok)
  have ctx: "epochCtxCache (snd (verifyHeaderSignatureCached exampleHeaderMethods exampleShardPkg
            exampleSigPkg NewEngine wideChain (exampleHeader 0 999 300 []) (replicate 96 7)
            (replicate 64 255))) = []"
    by (simp add: cached_miss [OF miss] wide_fresh_ok) (simp add: NewEngine_def)
  show ?thesis
    using pre first wide_fresh_rejects [OF ctx]
      verifiedSigKey_prefix_collision [OF pre, where bh = "[231, 0]" and sig = "replicate 96 7"
        and hm = exampleHeaderMethods and hm' = exampleHeaderMethods
        and header = "exampleHeader 0 999 300 []" and header' = "exampleHeader 0 999 300 []"
        and shp = exampleShardPkg and sgp = exampleSigPkg and e = NewEngine and chain = wideChain
        and shp' = exampleShardPkg and sgp' = exampleSigPkg and chain' = wideChain]
    by simp
qed

subsection \<open>Order of slash application\<close>

lemma thisKey_exampleRecord:
  "thisKey (exampleRecord sid h v a) = \<lparr>height = h, viewID = v, shardID = sid, epoch = 300\<rparr>"
  by (simp add: thisKey_def exampleRecord_def Uint64_def)

lemma example_groups:
  "groupRecords [exampleRecord 1 10 2 21, exampleRecord 0 10 2 22, exampleRecord 1 9 2 23] =
     [(thisKey (exampleRecord 1 10 2 21), [exampleRecord 1 10 2 21]),
      (thisKey (exampleRecord 0 10 2 22), [exampleRecord 0 10 2 22]),
      (thisKey (exampleRecord 1 9 2 23), [exampleRecord 1 9 2 23])]"
  by (simp add: groupRecords_def thisKey_exampleRecord)

lemma example_sorted:
  "SliceStable keyLess
     [thisKey (exampleRecord 1 10 2 21), thisKey (exampleRecord 0 10 2 22),
      thisKey (exampleRecord 1 9 2 23)] =
     [thisKey (exampleRecord 1 9 2 23), thisKey (exampleRecord 0 10 2 22),
      thisKey (exampleRecord 1 10 2 21)]"
  by (simp add: SliceStable_def insertionSort_def keyLess_def thisKey_exampleRecord)

lemma example_slash_step:
  "slashGroups recordingSlashPkg exampleShardPkg (exampleChain 0 1000 300) g
     (\<lparr>height = h, viewID = v, shardID = sid, epoch = 300\<rparr> # rest) st =
   slashGroups recordingSlashPkg exampleShardPkg (exampleChain 0 1000 300) g rest
     (st @ [lookupGroup g \<lparr>height = h, viewID = v, shardID = sid, epoch = 300\<rparr>])"
  if "sid = 0 \<or> sid = 1"
  using that
  by (auto simp: exampleChain_def exampleShardState_def exampleShardPkg_def recordingSlashPkg_def)

lemma example_range_order:
  "isRangeOrder
     (groupRecords [exampleRecord 1 10 2 21, exampleRecord 0 10 2 22, exampleRecord 1 9 2 23])
     [thisKey (exampleRecord 1 10 2 21), thisKey (exampleRecord 0 10 2 22),
      thisKey (exampleRecord 1 9 2 23)]"
  by (simp add: example_groups isRangeOrder_def) (simp add: thisKey_exampleRecord)

lemma example_run:
  "applySlashes recordingSlashPkg exampleShardPkg
     [thisKey (exampleRecord 1 10 2 21), thisKey (exampleRecord 0 10 2 22),
      thisKey (exampleRecord 1 9 2 23)]
     (exampleChain 0 1000 300) (exampleHeader 0 1000 300 []) []
     [exampleRecord 1 10 2 21, exampleRecord 0 10 2 22, exampleRecord 1 9 2 23]
   = Inr [[exampleRecord 1 9 2 23], [exampleRecord 0 10 2 22], [exampleRecord 1 10 2 21]]"
  unfolding applySlashes_def Let_def example_sorted example_groups
  by (simp add: thisKey_exampleRecord example_slash_step lookupGroup_def
        del: slashGroups.simps(2))

lemma example_groups_rev:
  "groupRecords [exampleRecord 1 9 2 23, exampleRecord 0 10 2 22, exampleRecord 1 10 2 21] =
     [(thisKey (exampleRecord 1 9 2 23), [exampleRecord 1 9 2 23]),
      (thisKey (exampleRecord 0 10 2 22), [exampleRecord 0 10 2 22]),
      (thisKey (exampleRecord 1 10 2 21), [exampleRecord 1 10 2 21])]"
  by (simp add: groupRecords_def thisKey_exampleRecord)

lemma example_sorted_rev:
  "SliceStable keyLess
     [thisKey (exampleRecord 1 9 2 23), thisKey (exampleRecord 0 10 2 22),
      thisKey (exampleRecord 1 10 2 21)] =
     [thisKey (exampleRecord 0 10 2 22), thisKey (exampleRecord 1 9 2 23),
      thisKey (exampleRecord 1 10 2 21)]"
  by (simp add: SliceStable_def insertionSort_def keyLess_def thisKey_exampleRecord)

lemma example_sorted_rotated:
  "SliceStable keyLess
     [thisKey (exampleRecord 1 9 2 23), thisKey (exampleRecord 1 10 2 21),
      thisKey (exampleRecord 0 10 2 22)] =
     [thisKey (exampleRecord 0 10 2 22), thisKey (exampleRecord 1 9 2 23),
      thisKey (exampleRecord 1 10 2 21)]"
  by (simp add: SliceStable_def insertionSort_def keyLess_def thisKey_exampleRecord)

lemma example_run_rev:
  "applySlashes recordingSlashPkg exampleShardPkg
     [thisKey (exampleRecord 1 9 2 23), thisKey (exampleRecord 0 10 2 22),
      thisKey (exampleRecord 1 10 2 21)]
     (exampleChain 0 1000 300) (exampleHeader 0 1000 300 []) []
     [exampleRecord 1 9 2 23, exampleRecord 0 10 2 22, exampleRecord 1 10 2 21]
   = Inr [[exampleRecord 0 10 2 22], [exampleRecord 1 9 2 23], [exampleRecord 1 10 2 21]]"
  unfolding applySlashes_def Let_def example_sorted_rev example_groups_rev
  by (simp add: thisKey_exampleRecord example_slash_step lookupGroup_def
        del: slashGroups.simps(2))

lemma example_run_rotated:
  "applySlashes recordingSlashPkg exampleShardPkg
     [thisKey (exampleRecord 1 9 2 23), thisKey (exampleRecord 1 10 2 21),
      thisKey (exampleRecord 0 10 2 22)]
     (exampleChain 0 1000 300) (exampleHeader 0 1000 300 []) []
     [exampleRecord 1 10 2 21, exampleRecord 0 10 2 22, exampleRecord 1 9 2 23]
   = Inr [[exampleRecord 0 10 2 22], [exampleRecord 1 9 2 23], [exampleRecord 1 10 2 21]]"
  unfolding applySlashes_def Let_def example_sorted_rotated example_groups
  by (simp add: thisKey_exampleRecord example_slash_step lookupGroup_def
        del: slashGroups.simps(2))

text \<open>
  Claim C1, evaluated on the code at the evidence of the specification's example. The
  comparator tests the height whenever the first shard id is not smaller, also when it is
  larger, so it is not the lexicographic order on (shardID, height, viewID). With the
  keys ranged over in the order they were inserted, the sorted keys are shard 1 at
  height 9, shard 0 at height 10, shard 1 at height 10, and the groups are applied in
  that order.
\<close>

theorem applySlashes_order_at_spec_example:
  "isRangeOrder
     (groupRecords [exampleRecord 1 10 2 21, exampleRecord 0 10 2 22, exampleRecord 1 9 2 23])
     [thisKey (exampleRecord 1 10 2 21), thisKey (exampleRecord 0 10 2 22),
      thisKey (exampleRecord 1 9 2 23)]
   \<and> SliceStable keyLess
        [thisKey (exampleRecord 1 10 2 21), thisKey (exampleRecord 0 10 2 22),
         thisKey (exampleRecord 1 9 2 23)]
      = [thisKey (exampleRecord 1 9 2 23), thisKey (exampleRecord 0 10 2 22),
         thisKey (exampleRecord 1 10 2 21)]
   \<and> applySlashes recordingSlashPkg exampleShardPkg
        [thisKey (exampleRecord 1 10 2 21), thisKey (exampleRecord 0 10 2 22),
         thisKey (exampleRecord 1 9 2 23)]
        (exampleChain 0 1000 300) (exampleHeader 0 1000 300 []) []
        [exampleRecord 1 10 2 21, exampleRecord 0 10 2 22, exampleRecord 1 9 2 23]
      = Inr [[exampleRecord 1 9 2 23], [exampleRecord 0 10 2 22], [exampleRecord 1 10 2 21]]"
  using example_range_order example_sorted example_run by simp

text \<open>
  Claim C2, evaluated on the code. The same three records fed in reverse order, each run
  ranging over the keys in insertion order, are applied in a different order; so is the
  same input when the range starts at another key.
\<close>

theorem applySlashes_depends_on_order:
  "isRangeOrder
     (groupRecords [exampleRecord 1 10 2 21, exampleRecord 0 10 2 22, exampleRecord 1 9 2 23])
     [thisKey (exampleRecord 1 10 2 21), thisKey (exampleRecord 0 10 2 22),
      thisKey (exampleRecord 1 9 2 23)]
   \<and> isRangeOrder
       (groupRecords [exampleRecord 1 9 2 23, exampleRecord 0 10 2 22, exampleRecord 1 10 2 21])
       [thisKey (exampleRecord 1 9 2 23), thisKey (exampleRecord 0 10 2 22),
        thisKey (exampleRecord 1 10 2 21)]
   \<and> isRangeOrder
       (groupRecords [exampleRecord 1 10 2 21, exampleRecord 0 10 2 22, exampleRecord 1 9 2 23])
       [thisKey (exampleRecord 1 9 2 23), thisKey (exampleRecord 1 10 2 21),
        thisKey (exampleRecord 0 10 2 22)]
   \<and> applySlashes recordingSlashPkg exampleShardPkg
        [thisKey (exampleRecord 1 10 2 21), thisKey (exampleRecord 0 10 2 22),
         thisKey (exampleRecord 1 9 2 23)]
        (exampleChain 0 1000 300) (exampleHeader 0 1000 300 []) []
        [exampleRecord 1 10 2 21, exampleRecord 0 10 2 22, exampleRecord 1 9 2 23]
      \<noteq> applySlashes recordingSlashPkg exampleShardPkg
          [thisKey (exampleRecord 1 9 2 23), thisKey (exampleRecord 0 10 2 22),
           thisKey (exampleRecord 1 10 2 21)]
          (exampleChain 0 1000 300) (exampleHeader 0 1000 300 []) []
          [exampleRecord 1 9 2 23, exampleRecord 0 10 2 22, exampleRecord 1 10 2 21]
   \<and> applySlashes recordingSlashPkg exampleShardPkg
        [thisKey (exampleRecord 1 10 2 21), thisKey (exampleRecord 0 10 2 22),
         thisKey (exampleRecord 1 9 2 23)]
        (exampleChain 0 1000 300) (exampleHeader 0 1000 300 []) []
        [exampleRecord 1 10 2 21, exampleRecord 0 10 2 22, exampleRecord 1 9 2 23]
      \<noteq> applySlashes recordingSlashPkg exampleShardPkg
          [thisKey (exampleRecord 1 9 2 23), thisKey (exampleRecord 1 10 2 21),
           thisKey (exampleRecord 0 10 2 22)]
          (exampleChain 0 1000 300) (exampleHeader 0 1000 300 []) []
          [exampleRecord 1 10 2 21, exampleRecord 0 10 2 22, exampleRecord 1 9 2 23]"
proof -
  have r2: "isRangeOrder
       (groupRecords [exampleRecord 1 9 2 23, exampleRecord 0 10 2 22, exampleRecord 1 10 2 21])
       [thisKey (exampleRecord 1 9 2 23), thisKey (exampleRecord 0 10 2 22),
        thisKey (exampleRecord 1 10 2 21)]"
    by (simp add: example_groups_rev isRangeOrder_def) (simp add: thisKey_exampleRecord)
  have r3: "isRangeOrder
       (groupRecords [exampleRecord 1 10 2 21, exampleRecord 0 10 2 22, exampleRecord 1 9 2 23])
       [thisKey (exampleRecord 1 9 2 23), thisKey (exampleRecord 1 10 2 21),
        thisKey (exampleRecord 0 10 2 22)]"
    by (simp add: example_groups isRangeOrder_def) (auto simp: thisKey_exampleRecord)
  have d: "exampleRecord 1 9 2 23 \<noteq> exampleRecord 0 10 2 22"
    by (simp add: exampleRecord_def)
  show ?thesis
    using example_range_order r2 r3 d
    by (simp add: example_run example_run_rev example_run_rotated)
qed

subsection \<open>Finalize\<close>

lemma AddBalance_validators: "validators (AddBalance st a n) = validators st"
  by (simp add: AddBalance_def)

lemma payoutDelegations_validators:
  "validators (snd (payoutDelegations stk ep le lp ne ds st)) = validators st"
  by (induction ds arbitrary: st) (simp_all add: split_beta Let_def AddBalance_validators)

lemma payoutDelegations_fst:
  "fst (payoutDelegations stk ep le lp ne ds st) =
     map (\<lambda>d. snd (RemoveUnlockedUndelegations stk d ep le lp ne)) ds"
  by (induction ds arbitrary: st) (simp_all add: split_beta Let_def)

lemma payoutValidators_step:
  "payoutValidators stk ep lp ne (v # rest) st =
     (case validators st v of
        None \<Rightarrow> Inl ErrGetValidatorFromState
      | Some w \<Rightarrow>
          payoutValidators stk ep lp ne rest
            ((snd (payoutDelegations stk ep (LastEpochInCommittee w) lp ne (Delegations w) st))
               \<lparr>validators := (validators st)(v \<mapsto>
                  w\<lparr>Delegations :=
                      map (\<lambda>d. snd (RemoveUnlockedUndelegations stk d ep (LastEpochInCommittee w) lp ne))
                        (Delegations w)\<rparr>)\<rparr>))"
  by (simp add: ValidatorWrapper_def split_beta Let_def payoutDelegations_fst
        payoutDelegations_validators split: option.split)

lemma payoutValidators_lastEpoch:
  "payoutValidators stk ep lp ne vs st = Inr st' \<Longrightarrow>
   map_option LastEpochInCommittee (validators st' a) = map_option LastEpochInCommittee (validators st a)"
proof (induction vs arbitrary: st)
  case Nil
  then show ?case by simp
next
  case (Cons v rest)
  from Cons.prems obtain w where w: "validators st v = Some w"
    by (auto simp: payoutValidators_step simp del: payoutValidators.simps split: option.splits)
  let ?st1 = "(snd (payoutDelegations stk ep (LastEpochInCommittee w) lp ne (Delegations w) st))
               \<lparr>validators := (validators st)(v \<mapsto>
                  w\<lparr>Delegations :=
                      map (\<lambda>d. snd (RemoveUnlockedUndelegations stk d ep (LastEpochInCommittee w) lp ne))
                        (Delegations w)\<rparr>)\<rparr>"
  have "payoutValidators stk ep lp ne rest ?st1 = Inr st'"
    using Cons.prems w by (simp add: payoutValidators_step del: payoutValidators.simps)
  then have "map_option LastEpochInCommittee (validators st' a)
               = map_option LastEpochInCommittee (validators ?st1 a)"
    by (rule Cons.IH)
  also have "\<dots> = map_option LastEpochInCommittee (validators st a)"
    using w by simp
  finally show ?case .
qed

lemma payoutValidators_wrappers:
  "payoutValidators stk ep lp ne vs st = Inr st' \<Longrightarrow> distinct vs \<Longrightarrow>
   validators st' a =
     (if a \<in> set vs
      then map_option
             (\<lambda>w. w\<lparr>Delegations :=
                      map (\<lambda>d. snd (RemoveUnlockedUndelegations stk d ep (LastEpochInCommittee w) lp ne))
                        (Delegations w)\<rparr>)
             (validators st a)
      else validators st a)"
proof (induction vs arbitrary: st)
  case Nil
  then show ?case by simp
next
  case (Cons v rest)
  from Cons.prems obtain w where w: "validators st v = Some w"
    by (auto simp: payoutValidators_step simp del: payoutValidators.simps split: option.splits)
  let ?st1 = "(snd (payoutDelegations stk ep (LastEpochInCommittee w) lp ne (Delegations w) st))
               \<lparr>validators := (validators st)(v \<mapsto>
                  w\<lparr>Delegations :=
                      map (\<lambda>d. snd (RemoveUnlockedUndelegations stk d ep (LastEpochInCommittee w) lp ne))
                        (Delegations w)\<rparr>)\<rparr>"
  have run: "payoutValidators stk ep lp ne rest ?st1 = Inr st'"
    using Cons.prems w by (simp add: payoutValidators_step del: payoutValidators.simps)
  have d: "distinct rest" and nv: "v \<notin> set rest"
    using Cons.prems by simp_all
  show ?case
    using Cons.IH [OF run d] w nv by auto
qed

lemma payoutValidators_present:
  "payoutValidators stk ep lp ne vs st = Inr st' \<Longrightarrow> v \<in> set vs \<Longrightarrow> \<exists>w. validators st v = Some w"
proof (induction vs arbitrary: st)
  case Nil
  then show ?case by simp
next
  case (Cons u rest)
  from Cons.prems obtain w where w: "validators st u = Some w"
    by (auto simp: payoutValidators_step simp del: payoutValidators.simps split: option.splits)
  let ?st1 = "(snd (payoutDelegations stk ep (LastEpochInCommittee w) lp ne (Delegations w) st))
               \<lparr>validators := (validators st)(u \<mapsto>
                  w\<lparr>Delegations :=
                      map (\<lambda>d. snd (RemoveUnlockedUndelegations stk d ep (LastEpochInCommittee w) lp ne))
                        (Delegations w)\<rparr>)\<rparr>"
  have run: "payoutValidators stk ep lp ne rest ?st1 = Inr st'"
    using Cons.prems w by (simp add: payoutValidators_step del: payoutValidators.simps)
  show ?case
  proof (cases "v = u")
    case True
    with w show ?thesis by simp
  next
    case False
    with Cons.prems have "v \<in> set rest" by simp
    from Cons.IH [OF run this] False show ?thesis by (simp split: if_splits)
  qed
qed

lemma setLastEpochLoop_keeps:
  "setLastEpochLoop newEpoch addrs st = Inr st' \<Longrightarrow>
   validators st a = Some w \<Longrightarrow> LastEpochInCommittee w = newEpoch \<Longrightarrow>
   \<exists>w'. validators st' a = Some w' \<and> LastEpochInCommittee w' = newEpoch"
proof (induction addrs arbitrary: st w)
  case Nil
  then show ?case by simp
next
  case (Cons b rest)
  from Cons.prems(1) obtain wb where wb: "validators st b = Some wb"
    by (auto simp: ValidatorWrapper_def split: option.splits)
  let ?st1 = "st\<lparr>validators := (validators st)(b \<mapsto> wb\<lparr>LastEpochInCommittee := newEpoch\<rparr>)\<rparr>"
  have run: "setLastEpochLoop newEpoch rest ?st1 = Inr st'"
    using Cons.prems(1) wb by (simp add: ValidatorWrapper_def)
  have "\<exists>w1. validators ?st1 a = Some w1 \<and> LastEpochInCommittee w1 = newEpoch"
    using Cons.prems(2,3) by simp
  then obtain w1 where "validators ?st1 a = Some w1" "LastEpochInCommittee w1 = newEpoch"
    by blast
  then show ?case by (rule Cons.IH [OF run])
qed

lemma setLastEpochLoop_sets:
  "setLastEpochLoop newEpoch addrs st = Inr st' \<Longrightarrow> a \<in> set addrs \<Longrightarrow>
   \<exists>w'. validators st' a = Some w' \<and> LastEpochInCommittee w' = newEpoch"
proof (induction addrs arbitrary: st)
  case Nil
  then show ?case by simp
next
  case (Cons b rest)
  from Cons.prems(1) obtain wb where wb: "validators st b = Some wb"
    by (auto simp: ValidatorWrapper_def split: option.splits)
  let ?st1 = "st\<lparr>validators := (validators st)(b \<mapsto> wb\<lparr>LastEpochInCommittee := newEpoch\<rparr>)\<rparr>"
  have run: "setLastEpochLoop newEpoch rest ?st1 = Inr st'"
    using Cons.prems(1) wb by (simp add: ValidatorWrapper_def)
  show ?case
  proof (cases "a = b")
    case True
    have "validators ?st1 a = Some (wb\<lparr>LastEpochInCommittee := newEpoch\<rparr>)"
      using True by simp
    moreover have "LastEpochInCommittee (wb\<lparr>LastEpochInCommittee := newEpoch\<rparr>) = newEpoch"
      by simp
    ultimately show ?thesis by (rule setLastEpochLoop_keeps [OF run])
  next
    case False
    with Cons.prems(2) have "a \<in> set rest" by simp
    then show ?thesis by (rule Cons.IH [OF run])
  qed
qed


text \<open>
  Claim C7. A non-empty list of double signers on a header that is not on the beacon
  shard, or not in a staking epoch, makes \<open>Finalize\<close> return an error and no block.
  Unless the header is on the beacon shard in a staking epoch and the list is non-empty,
  the result of \<open>Finalize\<close> is the same for every slash package. And once the steps
  before the slashing have succeeded, \<open>Finalize\<close> runs \<open>applySlashes\<close> on the state they
  leave exactly under that condition, fails with \<open>ErrSlashesInWrongChain\<close> when the list
  is non-empty outside it, and seals the block on the state as it is when the list is
  empty.
\<close>

theorem Finalize_slashing_gate:
  "(doubleSigners \<noteq> [] \<and>
      \<not> (hdr_ShardID header = BeaconChainShardID \<and> IsStaking (Config chain) (hdr_Epoch header)) \<longrightarrow>
      (\<exists>err. Finalize hm shp stk slp rangeKeys e chain header st txs receipts outcxs incxs stks
                doubleSigners sigsReady viewID' = Inl err))
   \<and> (\<not> (hdr_ShardID header = BeaconChainShardID \<and> IsStaking (Config chain) (hdr_Epoch header)
           \<and> doubleSigners \<noteq> []) \<longrightarrow>
        Finalize hm shp stk slp' rangeKeys' e chain header st txs receipts outcxs incxs stks
          doubleSigners sigsReady viewID'
        = Finalize hm shp stk slp rangeKeys e chain header st txs receipts outcxs incxs stks
            doubleSigners sigsReady viewID')
   \<and> ((if IsCommitteeSelectionBlock hm chain header
         then committeeSelectionUpdates hm shp stk chain header st else Inr st) = Inr stSel
        \<and> AccumulateRewardsAndCountSigs stk chain stSel header (beacon e) sigsReady = Inr (payout, stRew) \<longrightarrow>
        Finalize hm shp stk slp rangeKeys e chain header st txs receipts outcxs incxs stks
          doubleSigners sigsReady viewID'
        = (if hdr_ShardID header = BeaconChainShardID \<and> IsStaking (Config chain) (hdr_Epoch header)
              \<and> doubleSigners \<noteq> []
           then (case applySlashes slp shp rangeKeys chain header stRew doubleSigners of
                   Inl err \<Rightarrow> Inl err
                 | Inr stSl \<Rightarrow>
                     Inr (sealBlock stk chain header stSl txs receipts outcxs incxs stks viewID' payout))
           else if doubleSigners \<noteq> [] then Inl ErrSlashesInWrongChain
           else Inr (sealBlock stk chain header stRew txs receipts outcxs incxs stks viewID' payout)))"
  by (auto simp: Finalize_def Let_def split: sum.splits)

lemma example_not_selection:
  "\<not> IsCommitteeSelectionBlock exampleHeaderMethods c (exampleHeader sid n ep [])"
  by (simp add: IsCommitteeSelectionBlock_def exampleHeaderMethods_def exampleHeader_def)

lemma example_rewards:
  "AccumulateRewardsAndCountSigs exampleStaking c st h b True = Inr (28, AddBalance st 11 28)"
  by (simp add: exampleStaking_def)

lemma example_apply_one:
  "applySlashes exampleSlashPkg exampleShardPkg [thisKey (exampleRecord 0 10 2 22)]
     (exampleChain sid 1000 300) h st [exampleRecord 0 10 2 22]
   = Inr (AddBalance st 22 (- 1))"
  by (simp add: applySlashes_def SliceStable_def insertionSort_def groupRecords_def lookupGroup_def
        thisKey_def exampleRecord_def Uint64_def exampleChain_def exampleShardState_def
        exampleShardPkg_def exampleSlashPkg_def)

theorem Finalize_slashing_gate_witness:
  "Finalize exampleHeaderMethods exampleShardPkg exampleStaking exampleSlashPkg
     [thisKey (exampleRecord 0 10 2 22)] NewEngine (exampleChain 1 1000 300)
     (exampleHeader 1 1001 300 []) exampleState [] [] [] [] [] [exampleRecord 0 10 2 22] True 5
   = Inl ErrSlashesInWrongChain
   \<and> Finalize exampleHeaderMethods exampleShardPkg exampleStaking exampleSlashPkg
       [thisKey (exampleRecord 0 10 2 22)] NewEngine (exampleChain 0 1000 300)
       (exampleHeader 0 1001 300 []) exampleState [] [] [] [] [] [exampleRecord 0 10 2 22] True 5
     = Inr (sealBlock exampleStaking (exampleChain 0 1000 300) (exampleHeader 0 1001 300 [])
              (AddBalance (AddBalance exampleState 11 28) 22 (- 1)) [] [] [] [] [] 5 28)
   \<and> Finalize exampleHeaderMethods exampleShardPkg exampleStaking exampleSlashPkg
       [] NewEngine (exampleChain 1 1000 300)
       (exampleHeader 1 1001 300 []) exampleState [] [] [] [] [] [] True 5
     = Inr (sealBlock exampleStaking (exampleChain 1 1000 300) (exampleHeader 1 1001 300 [])
              (AddBalance exampleState 11 28) [] [] [] [] [] 5 28)"
proof -
  have wrong: "[exampleRecord 0 10 2 22] \<noteq> [] \<and>
      \<not> (hdr_ShardID (exampleHeader 1 1001 300 []) = BeaconChainShardID \<and>
         IsStaking (Config (exampleChain 1 1000 300)) (hdr_Epoch (exampleHeader 1 1001 300 [])))"
    by (simp add: exampleHeader_def BeaconChainShardID_def)
  have right: "hdr_ShardID (exampleHeader 0 1001 300 []) = BeaconChainShardID \<and>
         IsStaking (Config (exampleChain 0 1000 300)) (hdr_Epoch (exampleHeader 0 1001 300 []))"
    by (simp add: exampleHeader_def BeaconChainShardID_def exampleChain_def exampleConfig_def)
  have p1: "\<And>c h. (if IsCommitteeSelectionBlock exampleHeaderMethods c (exampleHeader h 1001 300 [])
         then committeeSelectionUpdates exampleHeaderMethods exampleShardPkg exampleStaking c
                (exampleHeader h 1001 300 []) exampleState
         else Inr exampleState) = Inr exampleState"
    by (simp add: example_not_selection)
  show ?thesis
    using wrong right
      Finalize_slashing_gate [where hm = exampleHeaderMethods and shp = exampleShardPkg
        and stk = exampleStaking and slp = exampleSlashPkg
        and rangeKeys = "[thisKey (exampleRecord 0 10 2 22)]" and e = NewEngine
        and chain = "exampleChain 1 1000 300" and header = "exampleHeader 1 1001 300 []"
        and st = exampleState and stSel = exampleState and stRew = "AddBalance exampleState 11 28"
        and payout = 28 and doubleSigners = "[exampleRecord 0 10 2 22]" and sigsReady = True
        and viewID' = 5 and txs = "[]" and receipts = "[]" and outcxs = "[]" and incxs = "[]"
        and stks = "[]"]
      Finalize_slashing_gate [where hm = exampleHeaderMethods and shp = exampleShardPkg
        and stk = exampleStaking and slp = exampleSlashPkg
        and rangeKeys = "[thisKey (exampleRecord 0 10 2 22)]" and e = NewEngine
        and chain = "exampleChain 0 1000 300" and header = "exampleHeader 0 1001 300 []"
        and st = exampleState and stSel = exampleState and stRew = "AddBalance exampleState 11 28"
        and payout = 28 and doubleSigners = "[exampleRecord 0 10 2 22]" and sigsReady = True
        and viewID' = 5 and txs = "[]" and receipts = "[]" and outcxs = "[]" and incxs = "[]"
        and stks = "[]"]
      Finalize_slashing_gate [where hm = exampleHeaderMethods and shp = exampleShardPkg
        and stk = exampleStaking and slp = exampleSlashPkg
        and rangeKeys = "[]" and e = NewEngine
        and chain = "exampleChain 1 1000 300" and header = "exampleHeader 1 1001 300 []"
        and st = exampleState and stSel = exampleState and stRew = "AddBalance exampleState 11 28"
        and payout = 28 and doubleSigners = "[]" and sigsReady = True
        and viewID' = 5 and txs = "[]" and receipts = "[]" and outcxs = "[]" and incxs = "[]"
        and stks = "[]"]
    by (simp add: p1 example_rewards example_apply_one)
qed


lemma Finalize_selection_block:
  assumes sel: "IsCommitteeSelectionBlock hm chain header"
    and fin: "Finalize hm shp stk slp rangeKeys e chain header st txs receipts outcxs incxs stks
                doubleSigners sigsReady viewID' = Inr result"
  shows "\<exists>stA stB curShardState stC payout stD stE.
           payoutUndelegations stk chain header st = Inr stA
         \<and> setLastEpochInCommittee hm shp header stA = Inr stB
         \<and> ReadShardState chain (CurrentBlockEpoch chain) = Inr curShardState
         \<and> mutateEPOSStatusLoop stk chain (StakedValidatorsAddrs shp curShardState) stB = Inr stC
         \<and> AccumulateRewardsAndCountSigs stk chain stC header (beacon e) sigsReady
             = Inr (payout, stD)
         \<and> (if hdr_ShardID header = BeaconChainShardID
                \<and> IsStaking (Config chain) (hdr_Epoch header) \<and> doubleSigners \<noteq> []
             then applySlashes slp shp rangeKeys chain header stD doubleSigners
             else if doubleSigners \<noteq> [] then Inl ErrSlashesInWrongChain
             else Inr stD) = Inr stE
         \<and> result = sealBlock stk chain header stE txs receipts outcxs incxs stks viewID' payout"
proof -
  from sel fin obtain stC where upd: "committeeSelectionUpdates hm shp stk chain header st = Inr stC"
    by (auto simp: Finalize_def Let_def split: sum.splits)
  from upd obtain stA stB curShardState where
    a: "payoutUndelegations stk chain header st = Inr stA"
    and b: "setLastEpochInCommittee hm shp header stA = Inr stB"
    and c: "ReadShardState chain (CurrentBlockEpoch chain) = Inr curShardState"
    and d: "mutateEPOSStatusLoop stk chain (StakedValidatorsAddrs shp curShardState) stB = Inr stC"
    by (auto simp: committeeSelectionUpdates_def split: sum.splits)
  from sel fin upd obtain payout stD where
    r: "AccumulateRewardsAndCountSigs stk chain stC header (beacon e) sigsReady = Inr (payout, stD)"
    by (auto simp: Finalize_def Let_def split: sum.splits)
  from sel fin upd r obtain stE where
    s: "(if hdr_ShardID header = BeaconChainShardID
            \<and> IsStaking (Config chain) (hdr_Epoch header) \<and> doubleSigners \<noteq> []
         then applySlashes slp shp rangeKeys chain header stD doubleSigners
         else if doubleSigners \<noteq> [] then Inl ErrSlashesInWrongChain
         else Inr stD) = Inr stE"
    and t: "result = sealBlock stk chain header stE txs receipts outcxs incxs stks viewID' payout"
    by (auto simp: Finalize_def Let_def split: sum.splits if_splits)
  from a b c d r s t show ?thesis by blast
qed

text \<open>
  Claim C8. When \<open>setLastEpochInCommittee\<close> succeeds, every address among the staked
  validators of the header's shard state has a wrapper whose \<open>LastEpochInCommittee\<close> is
  that shard state's epoch. And when \<open>Finalize\<close> succeeds on a committee selection block,
  what it returns is built in this order: the payout runs on the state \<open>Finalize\<close> was
  given, the update of \<open>LastEpochInCommittee\<close> on the state the payout left, the EPoS
  status on the state the update left, then the rewards, the slashing gate and the
  sealing of the block. The payout leaves every \<open>LastEpochInCommittee\<close> as it was, and
  (for a validator list without repetitions) each validator's delegations were handed to
  \<open>RemoveUnlockedUndelegations\<close> with the \<open>LastEpochInCommittee\<close> of the given state.
\<close>

theorem setLastEpochInCommittee_after_payout:
  "(setLastEpochInCommittee hm shp header stP = Inr stL \<longrightarrow>
      (\<exists>ss. GetShardState hm header = Inr ss \<and>
            (\<forall>addr \<in> set (StakedValidatorsAddrs shp ss).
               \<exists>w. validators stL addr = Some w \<and> LastEpochInCommittee w = ss_Epoch ss)))
   \<and> (IsCommitteeSelectionBlock hm chain header \<and>
       Finalize hm shp stk slp rangeKeys e chain header st txs receipts outcxs incxs stks
         doubleSigners sigsReady viewID' = Inr result \<longrightarrow>
       (\<exists>validatorList stA stB curShardState stC payout stD stE.
          ReadValidatorList chain = Inr validatorList
          \<and> payoutUndelegations stk chain header st = Inr stA
          \<and> setLastEpochInCommittee hm shp header stA = Inr stB
          \<and> ReadShardState chain (CurrentBlockEpoch chain) = Inr curShardState
          \<and> mutateEPOSStatusLoop stk chain (StakedValidatorsAddrs shp curShardState) stB = Inr stC
          \<and> AccumulateRewardsAndCountSigs stk chain stC header (beacon e) sigsReady
              = Inr (payout, stD)
          \<and> (if hdr_ShardID header = BeaconChainShardID
                 \<and> IsStaking (Config chain) (hdr_Epoch header) \<and> doubleSigners \<noteq> []
              then applySlashes slp shp rangeKeys chain header stD doubleSigners
              else if doubleSigners \<noteq> [] then Inl ErrSlashesInWrongChain
              else Inr stD) = Inr stE
          \<and> result = sealBlock stk chain header stE txs receipts outcxs incxs stks viewID' payout
          \<and> (\<forall>a. map_option LastEpochInCommittee (validators stA a)
                   = map_option LastEpochInCommittee (validators st a))
          \<and> (distinct validatorList \<longrightarrow>
               (\<forall>v \<in> set validatorList.
                  \<exists>w. validators st v = Some w \<and>
                      validators stA v =
                        Some (w\<lparr>Delegations :=
                                map (\<lambda>d. snd (RemoveUnlockedUndelegations stk d (hdr_Epoch header)
                                               (LastEpochInCommittee w)
                                               (GetLockPeriodInEpoch stk chain (hdr_Epoch header))
                                               (IsNoEarlyUnlock (Config chain) (hdr_Epoch header))))
                                  (Delegations w)\<rparr>)))))"
proof (intro conjI impI)
  assume "setLastEpochInCommittee hm shp header stP = Inr stL"
  then obtain ss where ss: "GetShardState hm header = Inr ss"
    and run: "setLastEpochLoop (ss_Epoch ss) (StakedValidatorsAddrs shp ss) stP = Inr stL"
    by (auto simp: setLastEpochInCommittee_def split: sum.splits)
  have "\<forall>addr \<in> set (StakedValidatorsAddrs shp ss).
          \<exists>w. validators stL addr = Some w \<and> LastEpochInCommittee w = ss_Epoch ss"
    using setLastEpochLoop_sets [OF run] by blast
  with ss show "\<exists>ss. GetShardState hm header = Inr ss \<and>
            (\<forall>addr \<in> set (StakedValidatorsAddrs shp ss).
               \<exists>w. validators stL addr = Some w \<and> LastEpochInCommittee w = ss_Epoch ss)"
    by blast
next
  assume a: "IsCommitteeSelectionBlock hm chain header \<and>
       Finalize hm shp stk slp rangeKeys e chain header st txs receipts outcxs incxs stks
         doubleSigners sigsReady viewID' = Inr result"
  from a have sel: "IsCommitteeSelectionBlock hm chain header" by simp
  from a have fin: "Finalize hm shp stk slp rangeKeys e chain header st txs receipts outcxs incxs
         stks doubleSigners sigsReady viewID' = Inr result" by simp
  from Finalize_selection_block [OF sel fin]
  obtain stA stB curShardState stC payout stD stE where
    pay: "payoutUndelegations stk chain header st = Inr stA"
    and upd: "setLastEpochInCommittee hm shp header stA = Inr stB"
    and cur: "ReadShardState chain (CurrentBlockEpoch chain) = Inr curShardState"
    and epos: "mutateEPOSStatusLoop stk chain (StakedValidatorsAddrs shp curShardState) stB = Inr stC"
    and rew: "AccumulateRewardsAndCountSigs stk chain stC header (beacon e) sigsReady
                = Inr (payout, stD)"
    and sl: "(if hdr_ShardID header = BeaconChainShardID
                 \<and> IsStaking (Config chain) (hdr_Epoch header) \<and> doubleSigners \<noteq> []
              then applySlashes slp shp rangeKeys chain header stD doubleSigners
              else if doubleSigners \<noteq> [] then Inl ErrSlashesInWrongChain
              else Inr stD) = Inr stE"
    and res: "result = sealBlock stk chain header stE txs receipts outcxs incxs stks viewID' payout"
    by blast
  from pay obtain validatorList where vl: "ReadValidatorList chain = Inr validatorList"
    and run: "payoutValidators stk (hdr_Epoch header) (GetLockPeriodInEpoch stk chain (hdr_Epoch header))
                (IsNoEarlyUnlock (Config chain) (hdr_Epoch header)) validatorList st = Inr stA"
    by (auto simp: payoutUndelegations_def Let_def split: sum.splits)
  have keep: "\<forall>a. map_option LastEpochInCommittee (validators stA a)
                   = map_option LastEpochInCommittee (validators st a)"
    using payoutValidators_lastEpoch [OF run] by blast
  have reads: "distinct validatorList \<longrightarrow>
               (\<forall>v \<in> set validatorList.
                  \<exists>w. validators st v = Some w \<and>
                      validators stA v =
                        Some (w\<lparr>Delegations :=
                                map (\<lambda>d. snd (RemoveUnlockedUndelegations stk d (hdr_Epoch header)
                                               (LastEpochInCommittee w)
                                               (GetLockPeriodInEpoch stk chain (hdr_Epoch header))
                                               (IsNoEarlyUnlock (Config chain) (hdr_Epoch header))))
                                  (Delegations w)\<rparr>))"
  proof (intro impI ballI)
    fix v assume d: "distinct validatorList" and v: "v \<in> set validatorList"
    from payoutValidators_present [OF run v] obtain w where w: "validators st v = Some w" by blast
    from payoutValidators_wrappers [OF run d, of v] v w
    show "\<exists>w. validators st v = Some w \<and>
                      validators stA v =
                        Some (w\<lparr>Delegations :=
                                map (\<lambda>d. snd (RemoveUnlockedUndelegations stk d (hdr_Epoch header)
                                               (LastEpochInCommittee w)
                                               (GetLockPeriodInEpoch stk chain (hdr_Epoch header))
                                               (IsNoEarlyUnlock (Config chain) (hdr_Epoch header))))
                                  (Delegations w)\<rparr>)"
      by simp
  qed
  show "\<exists>validatorList stA stB curShardState stC payout stD stE.
          ReadValidatorList chain = Inr validatorList
          \<and> payoutUndelegations stk chain header st = Inr stA
          \<and> setLastEpochInCommittee hm shp header stA = Inr stB
          \<and> ReadShardState chain (CurrentBlockEpoch chain) = Inr curShardState
          \<and> mutateEPOSStatusLoop stk chain (StakedValidatorsAddrs shp curShardState) stB = Inr stC
          \<and> AccumulateRewardsAndCountSigs stk chain stC header (beacon e) sigsReady
              = Inr (payout, stD)
          \<and> (if hdr_ShardID header = BeaconChainShardID
                 \<and> IsStaking (Config chain) (hdr_Epoch header) \<and> doubleSigners \<noteq> []
              then applySlashes slp shp rangeKeys chain header stD doubleSigners
              else if doubleSigners \<noteq> [] then Inl ErrSlashesInWrongChain
              else Inr stD) = Inr stE
          \<and> result = sealBlock stk chain header stE txs receipts outcxs incxs stks viewID' payout
          \<and> (\<forall>a. map_option LastEpochInCommittee (validators stA a)
                   = map_option LastEpochInCommittee (validators st a))
          \<and> (distinct validatorList \<longrightarrow>
               (\<forall>v \<in> set validatorList.
                  \<exists>w. validators st v = Some w \<and>
                      validators stA v =
                        Some (w\<lparr>Delegations :=
                                map (\<lambda>d. snd (RemoveUnlockedUndelegations stk d (hdr_Epoch header)
                                               (LastEpochInCommittee w)
                                               (GetLockPeriodInEpoch stk chain (hdr_Epoch header))
                                               (IsNoEarlyUnlock (Config chain) (hdr_Epoch header))))
                                  (Delegations w)\<rparr>)))"
    apply (rule exI [where x = validatorList])
    apply (rule exI [where x = stA])
    apply (rule exI [where x = stB])
    apply (rule exI [where x = curShardState])
    apply (rule exI [where x = stC])
    apply (rule exI [where x = payout])
    apply (rule exI [where x = stD])
    apply (rule exI [where x = stE])
    apply (intro conjI)
    apply (rule vl)
    apply (rule pay)
    apply (rule upd)
    apply (rule cur)
    apply (rule epos)
    apply (rule rew)
    apply (rule sl)
    apply (rule res)
    apply (rule keep)
    apply (rule reads)
    done
qed

lemma example_selection:
  "IsCommitteeSelectionBlock exampleHeaderMethods (exampleChain 0 1000 299)
     (exampleHeader 0 1000 299 [1, 2])"
  by (simp add: IsCommitteeSelectionBlock_def exampleHeaderMethods_def exampleHeader_def
        exampleChain_def exampleConfig_def BeaconChainShardID_def)

lemma example_payout:
  "payoutUndelegations exampleStaking (exampleChain 0 1000 299) (exampleHeader 0 1000 299 [1, 2])
     exampleState = Inr paidOutState"
  by (simp add: payoutUndelegations_def GetLockPeriodInEpoch_def ValidatorWrapper_def
        AddBalance_def exampleStaking_def exampleChain_def exampleConfig_def exampleHeader_def
        exampleState_def exampleWrapper_def paidOutState_def)

lemma example_setLastEpoch:
  "setLastEpochInCommittee exampleHeaderMethods exampleShardPkg (exampleHeader 0 1000 299 [1, 2])
     paidOutState
   = Inr (paidOutState\<lparr>validators :=
            [11 \<mapsto> exampleWrapper\<lparr>Delegations :=
                  [\<lparr>DelegatorAddress = 31, Amount = 500, Undelegations = []\<rparr>],
                LastEpochInCommittee := Some 300\<rparr>]\<rparr>)"
  by (simp add: setLastEpochInCommittee_def ValidatorWrapper_def exampleHeaderMethods_def
        exampleShardPkg_def exampleShardState_def exampleHeader_def paidOutState_def)

lemma example_finalize_selection:
  "Finalize exampleHeaderMethods exampleShardPkg exampleStaking exampleSlashPkg []
      NewEngine (exampleChain 0 1000 299) (exampleHeader 0 1000 299 [1, 2]) exampleState
      [] [] [] [] [] [] True 5
   = Inr (sealBlock exampleStaking (exampleChain 0 1000 299) (exampleHeader 0 1000 299 [1, 2])
            finalizedState [] [] [] [] [] 5 28)"
proof -
  have "committeeSelectionUpdates exampleHeaderMethods exampleShardPkg exampleStaking
          (exampleChain 0 1000 299) (exampleHeader 0 1000 299 [1, 2]) exampleState
        = Inr (paidOutState\<lparr>validators :=
            [11 \<mapsto> exampleWrapper\<lparr>Delegations :=
                  [\<lparr>DelegatorAddress = 31, Amount = 500, Undelegations = []\<rparr>],
                LastEpochInCommittee := Some 300, Status := 1\<rparr>]\<rparr>)"
    by (simp add: committeeSelectionUpdates_def example_payout example_setLastEpoch)
       (simp add: exampleChain_def exampleShardPkg_def exampleShardState_def exampleStaking_def
          paidOutState_def)
  then show ?thesis
    by (simp add: Finalize_def example_selection example_rewards finalizedState_def)
qed

theorem setLastEpochInCommittee_after_payout_witness:
  "IsCommitteeSelectionBlock exampleHeaderMethods (exampleChain 0 1000 299)
     (exampleHeader 0 1000 299 [1, 2])
   \<and> Finalize exampleHeaderMethods exampleShardPkg exampleStaking exampleSlashPkg []
       NewEngine (exampleChain 0 1000 299) (exampleHeader 0 1000 299 [1, 2]) exampleState
       [] [] [] [] [] [] True 5
     = Inr (sealBlock exampleStaking (exampleChain 0 1000 299) (exampleHeader 0 1000 299 [1, 2])
              finalizedState [] [] [] [] [] 5 28)
   \<and> balances finalizedState 31 = 100
   \<and> map_option LastEpochInCommittee (validators finalizedState 11) = Some (Some 300)
   \<and> payoutUndelegations exampleStaking (exampleChain 0 1000 299)
        (exampleHeader 0 1000 299 [1, 2]) exampleState = Inr paidOutState
   \<and> balances paidOutState 31 = 100
   \<and> map_option LastEpochInCommittee (validators paidOutState 11) = Some (Some 290)
   \<and> (\<exists>stB. setLastEpochInCommittee exampleHeaderMethods exampleShardPkg
               (exampleHeader 0 1000 299 [1, 2]) paidOutState = Inr stB
             \<and> map_option LastEpochInCommittee (validators stB 11) = Some (Some 300))
   \<and> (\<exists>stA stB stE payout.
         payoutUndelegations exampleStaking (exampleChain 0 1000 299)
           (exampleHeader 0 1000 299 [1, 2]) exampleState = Inr stA
         \<and> setLastEpochInCommittee exampleHeaderMethods exampleShardPkg
             (exampleHeader 0 1000 299 [1, 2]) stA = Inr stB
         \<and> sealBlock exampleStaking (exampleChain 0 1000 299) (exampleHeader 0 1000 299 [1, 2])
             finalizedState [] [] [] [] [] 5 28
           = sealBlock exampleStaking (exampleChain 0 1000 299) (exampleHeader 0 1000 299 [1, 2])
               stE [] [] [] [] [] 5 payout)"
proof -
  note fin = example_finalize_selection
  note sel = example_selection
  have chain: "\<exists>stA stB stE payout.
         payoutUndelegations exampleStaking (exampleChain 0 1000 299)
           (exampleHeader 0 1000 299 [1, 2]) exampleState = Inr stA
         \<and> setLastEpochInCommittee exampleHeaderMethods exampleShardPkg
             (exampleHeader 0 1000 299 [1, 2]) stA = Inr stB
         \<and> sealBlock exampleStaking (exampleChain 0 1000 299) (exampleHeader 0 1000 299 [1, 2])
             finalizedState [] [] [] [] [] 5 28
           = sealBlock exampleStaking (exampleChain 0 1000 299) (exampleHeader 0 1000 299 [1, 2])
               stE [] [] [] [] [] 5 payout"
    using sel fin
      setLastEpochInCommittee_after_payout [where hm = exampleHeaderMethods
        and shp = exampleShardPkg and stk = exampleStaking and slp = exampleSlashPkg
        and rangeKeys = "[]" and e = NewEngine and chain = "exampleChain 0 1000 299"
        and header = "exampleHeader 0 1000 299 [1, 2]" and st = exampleState
        and stP = paidOutState
        and stL = "paidOutState\<lparr>validators :=
            [11 \<mapsto> exampleWrapper\<lparr>Delegations :=
                  [\<lparr>DelegatorAddress = 31, Amount = 500, Undelegations = []\<rparr>],
                LastEpochInCommittee := Some 300\<rparr>]\<rparr>"
        and txs = "[]" and receipts = "[]" and outcxs = "[]" and incxs = "[]" and stks = "[]"
        and doubleSigners = "[]" and sigsReady = True and viewID' = 5
        and result = "sealBlock exampleStaking (exampleChain 0 1000 299)
                        (exampleHeader 0 1000 299 [1, 2]) finalizedState [] [] [] [] [] 5 28"]
    by blast
  have finalBal: "balances finalizedState 31 = 100"
    by (simp add: finalizedState_def AddBalance_def paidOutState_def)
  have finalEpoch: "map_option LastEpochInCommittee (validators finalizedState 11) = Some (Some 300)"
    by (simp add: finalizedState_def AddBalance_def)
  have bal: "balances paidOutState 31 = 100"
    by (simp add: paidOutState_def)
  have paidOld: "map_option LastEpochInCommittee (validators paidOutState 11) = Some (Some 290)"
    by (simp add: paidOutState_def exampleWrapper_def)
  have upd: "\<exists>stB. setLastEpochInCommittee exampleHeaderMethods exampleShardPkg
               (exampleHeader 0 1000 299 [1, 2]) paidOutState = Inr stB
             \<and> map_option LastEpochInCommittee (validators stB 11) = Some (Some 300)"
    by (simp add: example_setLastEpoch)
  from sel fin finalBal finalEpoch example_payout bal paidOld upd chain
  show ?thesis by (intro conjI)
qed

end
